theory Spec2Isabelle
  imports Main "HOL-Library.Char_ord" "HOL-Library.List_Lexorder" "HOL-Library.AList"
begin

section \<open>Bytes and decimal rendering\<close>

text \<open>
  Go strings and byte slices are sequences of bytes; \<^typ>\<open>string\<close> is a list of 8-bit
  characters, compared bytewise (the order of \<open>HOL-Library.Char_ord\<close> and
  \<open>HOL-Library.List_Lexorder\<close> is Go's \<open><\<close> on strings). \<open>byte c\<close> is the value of a
  byte, from 0 to 255.
\<close>

definition byte :: "char \<Rightarrow> int" where
  "byte c = of_char c"

definition isDigit :: "char \<Rightarrow> bool" where
  "isDigit c = (CHR ''0'' \<le> c \<and> c \<le> CHR ''9'')"

definition isLower :: "char \<Rightarrow> bool" where
  "isLower c = (CHR ''a'' \<le> c \<and> c \<le> CHR ''z'')"

definition isUpper :: "char \<Rightarrow> bool" where
  "isUpper c = (CHR ''A'' \<le> c \<and> c \<le> CHR ''Z'')"

definition toUpper :: "char \<Rightarrow> char" where
  "toUpper c = (if isLower c then char_of (byte c - 32) else c)"

definition toLower :: "char \<Rightarrow> char" where
  "toLower c = (if isUpper c then char_of (byte c + 32) else c)"

definition ishex :: "char \<Rightarrow> bool" where
  "ishex c = (isDigit c \<or> (CHR ''a'' \<le> c \<and> c \<le> CHR ''f'') \<or> (CHR ''A'' \<le> c \<and> c \<le> CHR ''F''))"

definition unhex :: "char \<Rightarrow> int" where
  "unhex c =
     (if isDigit c then byte c - 48
      else if CHR ''a'' \<le> c \<and> c \<le> CHR ''f'' then byte c - 97 + 10
      else if CHR ''A'' \<le> c \<and> c \<le> CHR ''F'' then byte c - 65 + 10
      else 0)"

text \<open>\<open>fmt.Sprintf("%d", n)\<close>: the decimal digits of an integer, with a minus sign.\<close>

definition digit :: "nat \<Rightarrow> char" where
  "digit n = ''0123456789'' ! n"

function digits :: "nat \<Rightarrow> string" where
  "digits n = (if n < 10 then [digit n] else digits (n div 10) @ [digit (n mod 10)])"
  by pat_completeness auto
termination
  by (relation "measure id") auto

declare digits.simps [simp del]

definition Sprintf_d :: "int \<Rightarrow> string" where
  "Sprintf_d n = (if n < 0 then CHR ''-'' # digits (nat (- n)) else digits (nat n))"


section \<open>JSON texts as \<open>encoding/json\<close> reads them\<close>

text \<open>
  \<open>json.Unmarshal\<close> first checks that the whole input is one well-formed JSON value
  (a syntax error otherwise, before the target is touched), then stores the value into
  the target, where a value of the wrong JSON kind for a field is a type error. The
  model follows these two stages: \<open>json_parse\<close> is the syntax stage and yields the value
  as a tree, the \<open>unmarshal_\<close> functions further down are the typed stage.
  A number is kept as its literal.
\<close>

datatype json =
    JNull
  | JBool bool
  | JNumber string
  | JString string
  | JArray "json list"
  | JObject "(string \<times> json) list"

datatype token =
    TLBrace | TRBrace | TLBrack | TRBrack | TColon | TComma
  | TStr string | TNum string | TTrue | TFalse | TNull

definition isSpace :: "char \<Rightarrow> bool" where
  "isSpace c = (c = CHR '' '' \<or> c = CHR 0x09 \<or> c = CHR 0x0A \<or> c = CHR 0x0D)"

subsection \<open>Strings\<close>

text \<open>
  \<open>scan_string\<close> reads the bytes after an opening quote up to the closing quote and
  returns them still escaped, with the rest of the input. A byte below 0x20, an unknown
  escape and a \<open>\u\<close> without four hex digits are syntax errors.
\<close>

definition valid_escape :: "char \<Rightarrow> string \<Rightarrow> bool" where
  "valid_escape e r =
     (e \<in> set [CHR 0x22, CHR 0x5C, CHR ''/'', CHR ''b'', CHR ''f'', CHR ''n'', CHR ''r'', CHR ''t'']
      \<or> (e = CHR ''u'' \<and> 4 \<le> length r \<and> list_all ishex (take 4 r)))"

fun scan_string :: "string \<Rightarrow> (string \<times> string) option" where
  "scan_string [] = None"
| "scan_string (c # cs) =
     (if c = CHR 0x22 then Some ([], cs)
      else if byte c < 32 then None
      else if c = CHR 0x5C then
        (case cs of
           [] \<Rightarrow> None
         | e # r \<Rightarrow>
             if valid_escape e r then
               (case scan_string r of None \<Rightarrow> None | Some (s, rest) \<Rightarrow> Some (c # e # s, rest))
             else None)
      else (case scan_string cs of None \<Rightarrow> None | Some (s, rest) \<Rightarrow> Some (c # s, rest)))"

text \<open>\<open>utf8.EncodeRune\<close>; a surrogate or a value above U+10FFFF encodes as U+FFFD.\<close>

definition encodeRune :: "int \<Rightarrow> string" where
  "encodeRune r =
     (if r < 0x80 then [char_of r]
      else if r < 0x800 then [char_of (0xC0 + r div 64), char_of (0x80 + r mod 64)]
      else if (0xD800 \<le> r \<and> r < 0xE000) \<or> 0x10FFFF < r then [CHR 0xEF, CHR 0xBF, CHR 0xBD]
      else if r < 0x10000 then
        [char_of (0xE0 + r div 4096), char_of (0x80 + (r div 64) mod 64), char_of (0x80 + r mod 64)]
      else
        [char_of (0xF0 + r div 262144), char_of (0x80 + (r div 4096) mod 64),
         char_of (0x80 + (r div 64) mod 64), char_of (0x80 + r mod 64)])"

definition between :: "int \<Rightarrow> int \<Rightarrow> char \<Rightarrow> bool" where
  "between lo hi c = (lo \<le> byte c \<and> byte c \<le> hi)"

text \<open>
  The length of the well-formed UTF-8 sequence at the head of the input, as
  \<open>utf8.DecodeRune\<close> accepts it (no overlong form, no surrogate, nothing above U+10FFFF);
  \<open>None\<close> where it reports \<open>RuneError\<close> with width 1.
\<close>

definition runeLen :: "string \<Rightarrow> nat option" where
  "runeLen s =
     (case s of
        [] \<Rightarrow> None
      | b0 # t \<Rightarrow>
          if byte b0 < 0x80 then Some 1
          else if between 0xC2 0xDF b0 then
            (case t of b1 # _ \<Rightarrow> if between 0x80 0xBF b1 then Some 2 else None | _ \<Rightarrow> None)
          else if between 0xE0 0xEF b0 then
            (case t of
               b1 # b2 # _ \<Rightarrow>
                 if between (if byte b0 = 0xE0 then 0xA0 else 0x80) (if byte b0 = 0xED then 0x9F else 0xBF) b1
                    \<and> between 0x80 0xBF b2
                 then Some 3 else None
             | _ \<Rightarrow> None)
          else if between 0xF0 0xF4 b0 then
            (case t of
               b1 # b2 # b3 # _ \<Rightarrow>
                 if between (if byte b0 = 0xF0 then 0x90 else 0x80) (if byte b0 = 0xF4 then 0x8F else 0xBF) b1
                    \<and> between 0x80 0xBF b2 \<and> between 0x80 0xBF b3
                 then Some 4 else None
             | _ \<Rightarrow> None)
          else None)"

text \<open>\<open>getu4\<close>: the value of \<open>\uXXXX\<close> at the head of the input, \<open>None\<close> for Go's \<open>-1\<close>.\<close>

definition getu4 :: "string \<Rightarrow> int option" where
  "getu4 s =
     (case s of
        b # u # h1 # h2 # h3 # h4 # _ \<Rightarrow>
          if b = CHR 0x5C \<and> u = CHR ''u'' \<and> ishex h1 \<and> ishex h2 \<and> ishex h3 \<and> ishex h4
          then Some (((unhex h1 * 16 + unhex h2) * 16 + unhex h3) * 16 + unhex h4)
          else None
      | _ \<Rightarrow> None)"

definition simple_escape :: "char \<Rightarrow> char" where
  "simple_escape e =
     (if e = CHR ''b'' then CHR 0x08 else if e = CHR ''f'' then CHR 0x0C
      else if e = CHR ''n'' then CHR 0x0A else if e = CHR ''r'' then CHR 0x0D
      else if e = CHR ''t'' then CHR 0x09 else e)"

text \<open>
  \<open>unquote\<close> turns the escaped bytes of a string into its value: escapes are replaced,
  a \<open>\u\<close> pair of surrogates becomes one rune, a lone surrogate and every byte that is
  not well-formed UTF-8 become U+FFFD.
\<close>

function unquote :: "string \<Rightarrow> string" where
  "unquote [] = []"
| "unquote (c # cs) =
     (if c = CHR 0x5C then
        (case cs of
           [] \<Rightarrow> []
         | e # r \<Rightarrow>
             if e = CHR ''u'' then
               (case getu4 (c # cs) of
                  None \<Rightarrow> []
                | Some rr \<Rightarrow>
                    if 0xD800 \<le> rr \<and> rr < 0xE000 then
                      (case getu4 (drop 4 r) of
                         Some rr1 \<Rightarrow>
                           if rr < 0xDC00 \<and> 0xDC00 \<le> rr1 \<and> rr1 < 0xE000 then
                             encodeRune ((rr - 0xD800) * 1024 + (rr1 - 0xDC00) + 0x10000)
                               @ unquote (drop 10 r)
                           else [CHR 0xEF, CHR 0xBF, CHR 0xBD] @ unquote (drop 4 r)
                       | None \<Rightarrow> [CHR 0xEF, CHR 0xBF, CHR 0xBD] @ unquote (drop 4 r))
                    else encodeRune rr @ unquote (drop 4 r))
             else simple_escape e # unquote r)
      else
        (case runeLen (c # cs) of
           Some n \<Rightarrow> c # take (n - 1) cs @ unquote (drop (n - 1) cs)
         | None \<Rightarrow> [CHR 0xEF, CHR 0xBF, CHR 0xBD] @ unquote cs))"
  by pat_completeness auto
termination
  by (relation "measure length") auto

subsection \<open>Numbers\<close>

text \<open>
  The JSON number grammar: an optional minus, \<open>0\<close> or a digit string without leading
  zero, an optional fraction with at least one digit, an optional exponent with at least
  one digit. The literal and the rest of the input are returned.
\<close>

definition scan_exp :: "string \<Rightarrow> string \<Rightarrow> (string \<times> string) option" where
  "scan_exp lit s =
     (case s of
        [] \<Rightarrow> Some (lit, [])
      | e # s1 \<Rightarrow>
          if e = CHR ''e'' \<or> e = CHR ''E'' then
            (let sg = (case s1 of [] \<Rightarrow> [] | x # _ \<Rightarrow> if x = CHR ''+'' \<or> x = CHR ''-'' then [x] else []);
                 s2 = drop (length sg) s1;
                 ds = takeWhile isDigit s2
             in if ds = [] then None else Some (lit @ e # sg @ ds, dropWhile isDigit s2))
          else Some (lit, s))"

definition scan_frac :: "string \<Rightarrow> string \<Rightarrow> (string \<times> string) option" where
  "scan_frac lit s =
     (case s of
        [] \<Rightarrow> Some (lit, [])
      | p # s1 \<Rightarrow>
          if p = CHR ''.'' then
            (let ds = takeWhile isDigit s1
             in if ds = [] then None else scan_exp (lit @ p # ds) (dropWhile isDigit s1))
          else scan_exp lit s)"

definition scan_number :: "string \<Rightarrow> (string \<times> string) option" where
  "scan_number s =
     (let sg = (case s of [] \<Rightarrow> [] | x # _ \<Rightarrow> if x = CHR ''-'' then [x] else []);
          s1 = drop (length sg) s
      in case s1 of
           [] \<Rightarrow> None
         | d # s2 \<Rightarrow>
             if d = CHR ''0'' then scan_frac (sg @ [d]) s2
             else if isDigit d then scan_frac (sg @ d # takeWhile isDigit s2) (dropWhile isDigit s2)
             else None)"

lemma scan_string_length: "scan_string s = Some (x, r) \<Longrightarrow> length r < length s"
proof (induction s arbitrary: x r rule: scan_string.induct)
  case 1
  then show ?case by simp
next
  case (2 c cs)
  from "2.prems" "2.IH" show ?case
    by (fastforce split: if_splits list.splits option.splits intro: less_SucI)
qed

lemma scan_exp_length: "scan_exp lit s = Some (x, r) \<Longrightarrow> length r \<le> length s"
  by (auto simp: scan_exp_def Let_def split: list.splits if_splits
      intro: order_trans[OF length_dropWhile_le] le_SucI)

lemma scan_frac_length: "scan_frac lit s = Some (x, r) \<Longrightarrow> length r \<le> length s"
  by (auto simp: scan_frac_def Let_def split: list.splits if_splits
      dest!: scan_exp_length intro: order_trans[OF _ length_dropWhile_le] le_SucI)

lemma scan_number_length: "scan_number s = Some (x, r) \<Longrightarrow> length r < length s"
  by (auto simp: scan_number_def Let_def less_Suc_eq_le split: list.splits if_splits
      dest!: scan_frac_length intro: order_trans[OF _ length_dropWhile_le] le_SucI)

lemma lex_string_shorter:
  "scan_string cs = Some x2 \<Longrightarrow> (x, y) = x2 \<Longrightarrow> length y \<le> length cs"
  using scan_string_length[of cs x y] by auto

lemma lex_number_shorter:
  "scan_number (c # cs) = Some x2 \<Longrightarrow> (x, y) = x2 \<Longrightarrow> length y \<le> length cs"
  using scan_number_length[of "c # cs" x y] by auto

subsection \<open>Tokens and values\<close>

function lex :: "token list \<Rightarrow> string \<Rightarrow> token list option" where
  "lex acc [] = Some (rev acc)"
| "lex acc (c # cs) =
     (if isSpace c then lex acc cs
      else if c = CHR ''{'' then lex (TLBrace # acc) cs
      else if c = CHR ''}'' then lex (TRBrace # acc) cs
      else if c = CHR ''['' then lex (TLBrack # acc) cs
      else if c = CHR '']'' then lex (TRBrack # acc) cs
      else if c = CHR '':'' then lex (TColon # acc) cs
      else if c = CHR '','' then lex (TComma # acc) cs
      else if c = CHR 0x22 then
        (case scan_string cs of
           None \<Rightarrow> None
         | Some (raw, rest) \<Rightarrow> lex (TStr (unquote raw) # acc) rest)
      else if c = CHR ''-'' \<or> isDigit c then
        (case scan_number (c # cs) of
           None \<Rightarrow> None
         | Some (lit, rest) \<Rightarrow> lex (TNum lit # acc) rest)
      else if take 4 (c # cs) = ''true'' then lex (TTrue # acc) (drop 3 cs)
      else if take 5 (c # cs) = ''false'' then lex (TFalse # acc) (drop 4 cs)
      else if take 4 (c # cs) = ''null'' then lex (TNull # acc) (drop 3 cs)
      else None)"
  by pat_completeness auto
termination
  apply (relation "measure (\<lambda>(acc, s). length s)")
  apply (simp_all add: less_Suc_eq_le)
  apply (erule (1) lex_string_shorter)
  apply (erule (1) lex_number_shorter)
  done

text \<open>
  The values are built by a stack machine over the tokens: a frame is an array or an
  object under construction (members newest first), an object frame with a key waits for
  that key's value. The scanner of \<open>encoding/json\<close> refuses a nesting deeper than 10000.
\<close>

datatype frame =
    FArray "json list"
  | FObject "(string \<times> json) list"
  | FObjectKey "(string \<times> json) list" string

datatype pstate =
    PValue            \<comment> \<open>a value must follow\<close>
  | PValueOrEnd       \<comment> \<open>after \<open>[\<close>: a value or \<open>]\<close>\<close>
  | PKeyOrEnd         \<comment> \<open>after \<open>{\<close>: a key or \<open>}\<close>\<close>
  | PKey              \<comment> \<open>after a comma in an object\<close>
  | PColon            \<comment> \<open>after a key\<close>
  | PAfter            \<comment> \<open>after a value inside an array or object\<close>
  | PDone json        \<comment> \<open>the top-level value is complete\<close>

definition maxNestingDepth :: int where
  "maxNestingDepth = 10000"

fun endValue :: "json \<Rightarrow> frame list \<Rightarrow> (pstate \<times> frame list) option" where
  "endValue v [] = Some (PDone v, [])"
| "endValue v (FArray es # st) = Some (PAfter, FArray (v # es) # st)"
| "endValue v (FObjectKey ms k # st) = Some (PAfter, FObject ((k, v) # ms) # st)"
| "endValue v (FObject ms # st) = None"

definition beginValue :: "token \<Rightarrow> frame list \<Rightarrow> (pstate \<times> frame list) option" where
  "beginValue t st =
     (case t of
        TStr s \<Rightarrow> endValue (JString s) st
      | TNum n \<Rightarrow> endValue (JNumber n) st
      | TTrue \<Rightarrow> endValue (JBool True) st
      | TFalse \<Rightarrow> endValue (JBool False) st
      | TNull \<Rightarrow> endValue JNull st
      | TLBrack \<Rightarrow> if maxNestingDepth < int (length st) + 1 then None else Some (PValueOrEnd, FArray [] # st)
      | TLBrace \<Rightarrow> if maxNestingDepth < int (length st) + 1 then None else Some (PKeyOrEnd, FObject [] # st)
      | _ \<Rightarrow> None)"

definition closeArray :: "frame list \<Rightarrow> (pstate \<times> frame list) option" where
  "closeArray st = (case st of FArray es # st' \<Rightarrow> endValue (JArray (rev es)) st' | _ \<Rightarrow> None)"

definition closeObject :: "frame list \<Rightarrow> (pstate \<times> frame list) option" where
  "closeObject st = (case st of FObject ms # st' \<Rightarrow> endValue (JObject (rev ms)) st' | _ \<Rightarrow> None)"

definition objectKey :: "string \<Rightarrow> frame list \<Rightarrow> (pstate \<times> frame list) option" where
  "objectKey k st = (case st of FObject ms # st' \<Rightarrow> Some (PColon, FObjectKey ms k # st') | _ \<Rightarrow> None)"

definition afterComma :: "frame list \<Rightarrow> (pstate \<times> frame list) option" where
  "afterComma st =
     (case st of FArray es # st' \<Rightarrow> Some (PValue, st) | FObject ms # st' \<Rightarrow> Some (PKey, st) | _ \<Rightarrow> None)"

fun pstep :: "pstate \<times> frame list \<Rightarrow> token \<Rightarrow> (pstate \<times> frame list) option" where
  "pstep (PValue, st) t = beginValue t st"
| "pstep (PValueOrEnd, st) t = (if t = TRBrack then closeArray st else beginValue t st)"
| "pstep (PKeyOrEnd, st) t =
     (case t of TRBrace \<Rightarrow> closeObject st | TStr k \<Rightarrow> objectKey k st | _ \<Rightarrow> None)"
| "pstep (PKey, st) t = (case t of TStr k \<Rightarrow> objectKey k st | _ \<Rightarrow> None)"
| "pstep (PColon, st) t = (if t = TColon then Some (PValue, st) else None)"
| "pstep (PAfter, st) t =
     (case t of
        TComma \<Rightarrow> afterComma st
      | TRBrack \<Rightarrow> closeArray st
      | TRBrace \<Rightarrow> closeObject st
      | _ \<Rightarrow> None)"
| "pstep (PDone v, st) t = None"

fun prun :: "pstate \<times> frame list \<Rightarrow> token list \<Rightarrow> json option" where
  "prun ps [] = (case ps of (PDone v, _) \<Rightarrow> Some v | _ \<Rightarrow> None)"
| "prun ps (t # ts) = (case pstep ps t of None \<Rightarrow> None | Some ps' \<Rightarrow> prun ps' ts)"

definition json_parse :: "string \<Rightarrow> json option" where
  "json_parse s = (case lex [] s of None \<Rightarrow> None | Some ts \<Rightarrow> prun (PValue, []) ts)"


section \<open>Storing a JSON value into a Go value\<close>

text \<open>
  The typed stage of \<open>json.Unmarshal\<close>, for the kinds of targets this package has.
  A store function takes the JSON value and the target's current contents and returns
  the new contents, or \<open>None\<close> for \<open>UnmarshalTypeError\<close>. (Go goes on after a type error
  and reports the first one at the end; every caller in this package drops the target
  when an error is reported, so the model stops at the first one.)

  \<^item> \<open>null\<close> leaves a string, a number or a struct as it is, and makes a slice nil
    (its backing array is dropped);
  \<^item> a struct takes an object: each member whose key matches a field's name, compared
    after \<open>foldName\<close>, is stored into that field, in the order of the members; members
    that match no field are skipped;
  \<^item> a slice takes an array; element \<open>i\<close> is stored into position \<open>i\<close> of the slice's
    backing array, over what that position holds: the old element \<open>i\<close>, or, beyond the
    old length, what an earlier and longer value of the slice left there (the decoder
    sets the length with \<open>SetLen\<close> and grows with \<open>Grow\<close>, which keeps the array up to its
    capacity and adds zero values). The length becomes the number of elements of the
    array. An empty array makes a new empty slice.

  A slice is therefore its elements together with what its backing array holds beyond
  its length, \<open>spare\<close>; positions that were never written hold the zero value, so how
  far the capacity reaches does not matter. A nil slice and an empty one without
  a backing array are both \<open>Slice [] []\<close>.
\<close>

datatype 'a slice = Slice (elems: "'a list") (spare: "'a list")

definition backing :: "'a slice \<Rightarrow> 'a list" where
  "backing s = elems s @ spare s"

datatype json_error = SyntaxError | UnmarshalTypeError

text \<open>
  \<open>foldName\<close>: ASCII letters are folded to upper case; the only runes outside ASCII
  whose case folding is an ASCII letter are U+212A (Kelvin sign, to K) and U+017F (long
  s, to S). Go folds the other runes among themselves, which cannot make a key equal
  to one of this package's field names: they are ASCII.
\<close>

function foldName :: "string \<Rightarrow> string" where
  "foldName [] = []"
| "foldName (c # cs) =
     (if byte c < 0x80 then toUpper c # foldName cs
      else if c = CHR 0xE2 \<and> take 2 cs = [CHR 0x84, CHR 0xAA] then CHR ''K'' # foldName (drop 2 cs)
      else if c = CHR 0xC5 \<and> take 1 cs = [CHR 0xBF] then CHR ''S'' # foldName (drop 1 cs)
      else c # foldName cs)"
  by pat_completeness auto
termination
  by (relation "measure length") auto

definition field_match :: "string \<Rightarrow> string \<Rightarrow> bool" where
  "field_match key name = (foldName key = foldName name)"

definition store_string :: "json \<Rightarrow> string \<Rightarrow> string option" where
  "store_string v old = (case v of JNull \<Rightarrow> Some old | JString s \<Rightarrow> Some s | _ \<Rightarrow> None)"

fun store_members :: "('a \<Rightarrow> string \<times> json \<Rightarrow> 'a option) \<Rightarrow> 'a \<Rightarrow> (string \<times> json) list \<Rightarrow> 'a option" where
  "store_members f x [] = Some x"
| "store_members f x (m # ms) = (case f x m of None \<Rightarrow> None | Some x' \<Rightarrow> store_members f x' ms)"

definition store_struct :: "('a \<Rightarrow> string \<times> json \<Rightarrow> 'a option) \<Rightarrow> json \<Rightarrow> 'a \<Rightarrow> 'a option" where
  "store_struct f v old =
     (case v of JNull \<Rightarrow> Some old | JObject ms \<Rightarrow> store_members f old ms | _ \<Rightarrow> None)"

fun store_elems :: "(json \<Rightarrow> 'a \<Rightarrow> 'a option) \<Rightarrow> 'a \<Rightarrow> json list \<Rightarrow> 'a list \<Rightarrow> 'a list option" where
  "store_elems f z [] old = Some []"
| "store_elems f z (x # xs) old =
     (case f x (case old of [] \<Rightarrow> z | y # _ \<Rightarrow> y) of
        None \<Rightarrow> None
      | Some y' \<Rightarrow> (case store_elems f z xs (tl old) of None \<Rightarrow> None | Some ys \<Rightarrow> Some (y' # ys)))"

definition store_slice :: "(json \<Rightarrow> 'a \<Rightarrow> 'a option) \<Rightarrow> 'a \<Rightarrow> json \<Rightarrow> 'a slice \<Rightarrow> 'a slice option" where
  "store_slice f z v old =
     (case v of
        JNull \<Rightarrow> Some (Slice [] [])
      | JArray xs \<Rightarrow>
          if xs = [] then Some (Slice [] [])
          else (case store_elems f z xs (backing old) of
                  None \<Rightarrow> None
                | Some ys \<Rightarrow> Some (Slice ys (drop (length xs) (backing old))))
      | _ \<Rightarrow> None)"

text \<open>
  \<open>json.Unmarshal(data, &x)\<close>: \<open>init\<close> is what \<open>x\<close> holds before the call.
\<close>

definition Unmarshal :: "(json \<Rightarrow> 'a \<Rightarrow> 'a option) \<Rightarrow> 'a \<Rightarrow> string \<Rightarrow> json_error + 'a" where
  "Unmarshal store init data =
     (case json_parse data of
        None \<Rightarrow> Inl SyntaxError
      | Some v \<Rightarrow> (case store v init of None \<Rightarrow> Inl UnmarshalTypeError | Some x \<Rightarrow> Inr x))"

text \<open>
  \<open>map[string]json.RawMessage\<close>: an object stores every member under its key, a later
  member replacing an earlier one with the same key; the map keeps the member's value
  where Go keeps its bytes.
\<close>

definition store_RawMap :: "json \<Rightarrow> (string \<rightharpoonup> json) \<Rightarrow> (string \<rightharpoonup> json) option" where
  "store_RawMap v old =
     (case v of
        JNull \<Rightarrow> Some old
      | JObject ms \<Rightarrow> Some (fold (\<lambda>(k, x) m. m(k \<mapsto> x)) ms old)
      | _ \<Rightarrow> None)"


section \<open>The types of the package\<close>

record ErrorResponse =
  ErrorIdentifier :: string
  Message :: string
  Details :: string
  DocumentationUrl :: string

definition InvalidRequest :: string where "InvalidRequest = ''invalid-request''"
definition InternalError :: string where "InternalError = ''internal-error''"
definition Forbidden :: string where "Forbidden = ''forbidden''"
definition Unauthorized :: string where "Unauthorized = ''unauthorized''"
definition UpgradeRequired :: string where "UpgradeRequired = ''upgrade-required''"
definition TranscriptUnavailable :: string where "TranscriptUnavailable = ''transcript-unavailable''"
definition NotFound :: string where "NotFound = ''not-found''"
definition LimitExceeded :: string where "LimitExceeded = ''limit-exceeded''"

definition ErrorIdentifiers :: "string list" where
  "ErrorIdentifiers =
     [InvalidRequest, InternalError, Forbidden, Unauthorized, UpgradeRequired,
      TranscriptUnavailable, NotFound, LimitExceeded]"

text \<open>\<open>func (e *ErrorResponse) Error() string\<close>\<close>

definition ErrorResponse_Error :: "ErrorResponse \<Rightarrow> string" where
  "ErrorResponse_Error e = ErrorIdentifier e @ '': '' @ Message e"

definition zero_ErrorResponse :: ErrorResponse where
  "zero_ErrorResponse = \<lparr>ErrorIdentifier = [], Message = [], Details = [], DocumentationUrl = []\<rparr>"

definition ErrorResponse_field :: "ErrorResponse \<Rightarrow> string \<times> json \<Rightarrow> ErrorResponse option" where
  "ErrorResponse_field e m =
     (case m of (k, v) \<Rightarrow>
        if field_match k ''error'' then
          map_option (\<lambda>s. e\<lparr>ErrorIdentifier := s\<rparr>) (store_string v (ErrorIdentifier e))
        else if field_match k ''message'' then
          map_option (\<lambda>s. e\<lparr>Message := s\<rparr>) (store_string v (Message e))
        else if field_match k ''details'' then
          map_option (\<lambda>s. e\<lparr>Details := s\<rparr>) (store_string v (Details e))
        else if field_match k ''documentationUrl'' then
          map_option (\<lambda>s. e\<lparr>DocumentationUrl := s\<rparr>) (store_string v (DocumentationUrl e))
        else Some e)"

definition unmarshal_ErrorResponse :: "string \<Rightarrow> json_error + ErrorResponse" where
  "unmarshal_ErrorResponse = Unmarshal (store_struct ErrorResponse_field) zero_ErrorResponse"

text \<open>
  A \<open>float64\<close> is represented by the number literal it was read from. Storing a number
  into a \<open>float64\<close> fails when \<open>strconv.ParseFloat\<close> reports it out of range; that
  test is the parameter \<open>float_ok\<close> of the functions below.
\<close>

datatype float64 = Float64 string

definition store_float64 :: "(string \<Rightarrow> bool) \<Rightarrow> json \<Rightarrow> float64 \<Rightarrow> float64 option" where
  "store_float64 float_ok v old =
     (case v of
        JNull \<Rightarrow> Some old
      | JNumber lit \<Rightarrow> if float_ok lit then Some (Float64 lit) else None
      | _ \<Rightarrow> None)"

record TranscriptContent =
  Text :: string
  Offset :: float64
  Duration :: float64
  Lang :: string

record SyncTranscript =
  Content :: "TranscriptContent slice"
  Lang :: string
  AvailableLangs :: "string slice"

record AsyncTranscript =
  JobId :: string

record Transcript =
  Sync :: "SyncTranscript option"
  Async :: "AsyncTranscript option"

definition IsAsync :: "Transcript \<Rightarrow> bool" where
  "IsAsync r = (Async r \<noteq> None)"

definition zero_TranscriptContent :: TranscriptContent where
  "zero_TranscriptContent =
     \<lparr>Text = [], Offset = Float64 ''0'', Duration = Float64 ''0'', TranscriptContent.Lang = []\<rparr>"

definition zero_SyncTranscript :: SyncTranscript where
  "zero_SyncTranscript =
     \<lparr>Content = Slice [] [], SyncTranscript.Lang = [], AvailableLangs = Slice [] []\<rparr>"

definition zero_AsyncTranscript :: AsyncTranscript where
  "zero_AsyncTranscript = \<lparr>JobId = []\<rparr>"

definition TranscriptContent_field ::
  "(string \<Rightarrow> bool) \<Rightarrow> TranscriptContent \<Rightarrow> string \<times> json \<Rightarrow> TranscriptContent option" where
  "TranscriptContent_field float_ok c m =
     (case m of (k, v) \<Rightarrow>
        if field_match k ''text'' then
          map_option (\<lambda>s. c\<lparr>Text := s\<rparr>) (store_string v (Text c))
        else if field_match k ''offset'' then
          map_option (\<lambda>x. c\<lparr>Offset := x\<rparr>) (store_float64 float_ok v (Offset c))
        else if field_match k ''duration'' then
          map_option (\<lambda>x. c\<lparr>Duration := x\<rparr>) (store_float64 float_ok v (Duration c))
        else if field_match k ''lang'' then
          map_option (\<lambda>s. c\<lparr>TranscriptContent.Lang := s\<rparr>) (store_string v (TranscriptContent.Lang c))
        else Some c)"

definition SyncTranscript_field ::
  "(string \<Rightarrow> bool) \<Rightarrow> SyncTranscript \<Rightarrow> string \<times> json \<Rightarrow> SyncTranscript option" where
  "SyncTranscript_field float_ok t m =
     (case m of (k, v) \<Rightarrow>
        if field_match k ''content'' then
          map_option (\<lambda>x. t\<lparr>Content := x\<rparr>)
            (store_slice (store_struct (TranscriptContent_field float_ok)) zero_TranscriptContent v (Content t))
        else if field_match k ''lang'' then
          map_option (\<lambda>s. t\<lparr>SyncTranscript.Lang := s\<rparr>) (store_string v (SyncTranscript.Lang t))
        else if field_match k ''availableLangs'' then
          map_option (\<lambda>x. t\<lparr>AvailableLangs := x\<rparr>) (store_slice store_string [] v (AvailableLangs t))
        else Some t)"

definition AsyncTranscript_field :: "AsyncTranscript \<Rightarrow> string \<times> json \<Rightarrow> AsyncTranscript option" where
  "AsyncTranscript_field a m =
     (case m of (k, v) \<Rightarrow>
        if field_match k ''jobId'' then map_option (\<lambda>s. a\<lparr>JobId := s\<rparr>) (store_string v (JobId a))
        else Some a)"

definition unmarshal_SyncTranscript :: "(string \<Rightarrow> bool) \<Rightarrow> string \<Rightarrow> json_error + SyncTranscript" where
  "unmarshal_SyncTranscript float_ok =
     Unmarshal (store_struct (SyncTranscript_field float_ok)) zero_SyncTranscript"

definition unmarshal_AsyncTranscript :: "string \<Rightarrow> json_error + AsyncTranscript" where
  "unmarshal_AsyncTranscript = Unmarshal (store_struct AsyncTranscript_field) zero_AsyncTranscript"

definition unmarshal_RawMap :: "string \<Rightarrow> json_error + (string \<rightharpoonup> json)" where
  "unmarshal_RawMap = Unmarshal store_RawMap Map.empty"


section \<open>Query strings and headers (\<open>net/url\<close>, \<open>net/http\<close>)\<close>

text \<open>
  \<open>url.Values\<close> is a \<open>map[string][]string\<close>: an association list with one entry for
  each key. Indexing an absent key gives the nil slice.
\<close>

type_synonym Values = "(string \<times> string list) list"

definition Values_index :: "Values \<Rightarrow> string \<Rightarrow> string list" where
  "Values_index v key = (case map_of v key of None \<Rightarrow> [] | Some vs \<Rightarrow> vs)"

definition Values_Set :: "Values \<Rightarrow> string \<Rightarrow> string \<Rightarrow> Values" where
  "Values_Set v key x = AList.update key [x] v"

definition Values_Add :: "Values \<Rightarrow> string \<Rightarrow> string \<Rightarrow> Values" where
  "Values_Add v key x = AList.update key (Values_index v key @ [x]) v"

text \<open>
  \<open>url.QueryEscape\<close>: letters, digits and \<open>- _ . ~\<close> stay, a space becomes \<open>+\<close>, every
  other byte becomes \<open>%XX\<close> in upper-case hex.
\<close>

definition shouldEscape :: "char \<Rightarrow> bool" where
  "shouldEscape c =
     (\<not> (isLower c \<or> isUpper c \<or> isDigit c \<or> c = CHR ''-'' \<or> c = CHR ''_'' \<or> c = CHR ''.'' \<or> c = CHR ''~''))"

definition upperhex :: "int \<Rightarrow> char" where
  "upperhex n = ''0123456789ABCDEF'' ! nat n"

definition escape_byte :: "char \<Rightarrow> string" where
  "escape_byte c =
     (if c = CHR '' '' then ''+''
      else if shouldEscape c then [CHR ''%'', upperhex (byte c div 16), upperhex (byte c mod 16)]
      else [c])"

definition QueryEscape :: "string \<Rightarrow> string" where
  "QueryEscape s = concat (map escape_byte s)"

text \<open>\<open>url.QueryUnescape\<close>; \<open>None\<close> for a \<open>%\<close> that two hex digits do not follow.\<close>

fun QueryUnescape :: "string \<Rightarrow> string option" where
  "QueryUnescape [] = Some []"
| "QueryUnescape (c # cs) =
     (if c = CHR ''%'' then
        (case cs of
           a # b # rest \<Rightarrow>
             if ishex a \<and> ishex b then
               (case QueryUnescape rest of
                  None \<Rightarrow> None
                | Some r \<Rightarrow> Some (char_of (unhex a * 16 + unhex b) # r))
             else None
         | _ \<Rightarrow> None)
      else
        (case QueryUnescape cs of
           None \<Rightarrow> None
         | Some r \<Rightarrow> Some ((if c = CHR ''+'' then CHR '' '' else c) # r)))"

text \<open>
  \<open>Values.Encode\<close>: the keys in sorted order, each value of a key as \<open>key=value\<close>, the
  pairs joined by \<open>&\<close>.
\<close>

definition write_pair :: "string \<Rightarrow> string \<Rightarrow> string \<Rightarrow> string" where
  "write_pair key x buf = (if buf = [] then [] else buf @ ''&'') @ QueryEscape key @ ''='' @ QueryEscape x"

definition Values_Encode :: "Values \<Rightarrow> string" where
  "Values_Encode v =
     fold (\<lambda>key buf. fold (write_pair key) (Values_index v key) buf) (sort (remdups (map fst v))) []"

text \<open>\<open>strings.Cut\<close>: the parts before and after the first separator.\<close>

definition Cut :: "char \<Rightarrow> string \<Rightarrow> string \<times> string" where
  "Cut sep s = (takeWhile (\<lambda>c. c \<noteq> sep) s, drop 1 (dropWhile (\<lambda>c. c \<noteq> sep) s))"

lemma Cut_shorter: "s \<noteq> [] \<Longrightarrow> length (snd (Cut sep s)) < length s"
proof -
  assume "s \<noteq> []"
  then have "0 < length s" by simp
  moreover have "length (dropWhile (\<lambda>c. c \<noteq> sep) s) \<le> length s"
    by (rule length_dropWhile_le)
  ultimately show ?thesis
    unfolding Cut_def snd_conv length_drop by arith
qed

text \<open>
  \<open>url.ParseQuery\<close>, as \<open>URL.Query\<close> uses it: a pair with a semicolon or a bad escape is
  left out and the error is dropped.
\<close>

function parseQuery :: "Values \<Rightarrow> string \<Rightarrow> Values" where
  "parseQuery m query =
     (if query = [] then m
      else
        (let key = fst (Cut (CHR ''&'') query); rest = snd (Cut (CHR ''&'') query)
         in if CHR '';'' \<in> set key then parseQuery m rest
            else if key = [] then parseQuery m rest
            else
              (case QueryUnescape (fst (Cut (CHR ''='') key)) of
                 None \<Rightarrow> parseQuery m rest
               | Some key1 \<Rightarrow>
                   (case QueryUnescape (snd (Cut (CHR ''='') key)) of
                      None \<Rightarrow> parseQuery m rest
                    | Some value1 \<Rightarrow> parseQuery (Values_Add m key1 value1) rest))))"
  by pat_completeness auto
termination
  by (relation "measure (\<lambda>(m, q). length q)") (simp_all add: Cut_shorter)

declare parseQuery.simps [simp del]

definition ParseQuery :: "string \<Rightarrow> Values" where
  "ParseQuery query = parseQuery [] query"

text \<open>
  A URL keeps what this package reads and writes: the query, and the text before it
  (scheme, authority and path, as written). \<open>url.Parse\<close> cuts the fragment off at the
  first \<open>#\<close> and the query at the first \<open>?\<close> of what is left; which strings it refuses
  is the parameter \<open>url_ok\<close>. The package never reads the fragment, and the record does
  not keep it.
\<close>

record URL =
  Location :: string
  RawQuery :: string

definition url_Parse :: "(string \<Rightarrow> bool) \<Rightarrow> string \<Rightarrow> URL option" where
  "url_Parse url_ok rawURL =
     (if url_ok rawURL then
        (let u = fst (Cut (CHR ''#'') rawURL)
         in Some \<lparr>Location = fst (Cut (CHR ''?'') u), RawQuery = snd (Cut (CHR ''?'') u)\<rparr>)
      else None)"

definition URL_Query :: "URL \<Rightarrow> Values" where
  "URL_Query u = ParseQuery (RawQuery u)"

text \<open>
  \<open>http.Header\<close> is a \<open>map[string][]string\<close> under canonical keys
  (\<open>textproto.CanonicalMIMEHeaderKey\<close>: the first letter and every letter after a hyphen
  in upper case, the others in lower case; a key with a byte that is not a token
  character is left as it is).
\<close>

type_synonym Header = "string \<rightharpoonup> string list"

definition validHeaderFieldByte :: "char \<Rightarrow> bool" where
  "validHeaderFieldByte c =
     (isLower c \<or> isUpper c \<or> isDigit c \<or>
      byte c \<in> set [0x21, 0x23, 0x24, 0x25, 0x26, 0x27, 0x2A, 0x2B, 0x2D, 0x2E, 0x5E, 0x5F, 0x60, 0x7C, 0x7E])"

fun canonical :: "bool \<Rightarrow> string \<Rightarrow> string" where
  "canonical upper [] = []"
| "canonical upper (c # cs) = (if upper then toUpper c else toLower c) # canonical (c = CHR ''-'') cs"

definition CanonicalMIMEHeaderKey :: "string \<Rightarrow> string" where
  "CanonicalMIMEHeaderKey s = (if list_all validHeaderFieldByte s then canonical True s else s)"

definition Header_Set :: "Header \<Rightarrow> string \<Rightarrow> string \<Rightarrow> Header" where
  "Header_Set h key x = h(CanonicalMIMEHeaderKey key \<mapsto> [x])"

definition Header_Get :: "Header \<Rightarrow> string \<Rightarrow> string" where
  "Header_Get h key =
     (case h (CanonicalMIMEHeaderKey key) of None \<Rightarrow> [] | Some [] \<Rightarrow> [] | Some (x # _) \<Rightarrow> x)"

record Request =
  Method :: string
  URL :: URL
  Header :: Header
  Body :: "string option"

datatype read_result = ReadOK string | ReadFailed string

record Response =
  StatusCode :: int
  Body :: read_result


section \<open>Configuration\<close>

text \<open>
  \<open>Config.client\<close> is a pointer to an \<open>http.Client\<close> that the caller may share, and
  \<open>WithTimeout\<close> writes through it: the clients live in a heap, a pointer is an index
  into it or nil (\<open>None\<close>), and an option takes the configuration and the heap and
  returns both, or the panic of a nil dereference. (Go has no dangling pointer; an
  index outside the heap is read as nil.) A \<open>time.Duration\<close> counts nanoseconds.
\<close>

datatype RoundTripper = DefaultTransport | CustomTransport nat

record http_Client =
  Timeout :: int
  Transport :: RoundTripper

type_synonym heap = "http_Client list"

record Config =
  apiKey :: string
  baseURL :: string
  client :: "nat option"

record Supadata =
  config :: Config

datatype panic = NilPointerDereference

definition deref :: "heap \<Rightarrow> nat option \<Rightarrow> http_Client option" where
  "deref h p = (case p of None \<Rightarrow> None | Some a \<Rightarrow> if a < length h then Some (h ! a) else None)"

type_synonym ConfigOption = "Config \<Rightarrow> heap \<Rightarrow> panic + Config \<times> heap"

definition BaseUrl :: string where
  "BaseUrl = ''https://api.supadata.ai/v1''"

definition Second :: int where
  "Second = 1000000000"

definition WithAPIKey :: "string \<Rightarrow> ConfigOption" where
  "WithAPIKey k = (\<lambda>c h. Inr (c\<lparr>apiKey := k\<rparr>, h))"

definition WithTimeout :: "int \<Rightarrow> ConfigOption" where
  "WithTimeout timeout =
     (\<lambda>c h. case client c of
               None \<Rightarrow> Inl NilPointerDereference
             | Some a \<Rightarrow>
                 if a < length h then Inr (c, h[a := (h ! a)\<lparr>Timeout := timeout\<rparr>])
                 else Inl NilPointerDereference)"

definition WithClient :: "nat option \<Rightarrow> ConfigOption" where
  "WithClient p = (\<lambda>c h. Inr (c\<lparr>client := p\<rparr>, h))"

definition WithBaseURL :: "string \<Rightarrow> ConfigOption" where
  "WithBaseURL u = (\<lambda>c h. Inr (c\<lparr>baseURL := u\<rparr>, h))"

text \<open>\<open>os.Getenv\<close>: the value of the variable, empty when it is not set.\<close>

definition Getenv :: "(string \<rightharpoonup> string) \<Rightarrow> string \<Rightarrow> string" where
  "Getenv env name = (case env name of None \<Rightarrow> [] | Some v \<Rightarrow> v)"

text \<open>
  The loop over the options. An option is a function value; calling one that is nil
  (\<open>None\<close>) panics.
\<close>

fun apply_opts :: "ConfigOption option list \<Rightarrow> Config \<Rightarrow> heap \<Rightarrow> panic + Config \<times> heap" where
  "apply_opts [] c h = Inr (c, h)"
| "apply_opts (None # opts) c h = Inl NilPointerDereference"
| "apply_opts (Some opt # opts) c h =
     (case opt c h of Inl p \<Rightarrow> Inl p | Inr (c', h') \<Rightarrow> apply_opts opts c' h')"

text \<open>
  \<open>NewSupadata\<close> allocates the default client, fills the configuration from the
  environment and the constant, and runs the options in the caller's order.
\<close>

definition NewSupadata ::
  "(string \<rightharpoonup> string) \<Rightarrow> heap \<Rightarrow> ConfigOption option list \<Rightarrow> panic + Supadata \<times> heap" where
  "NewSupadata env h opts =
     (let defaultClient = length h;
          h1 = h @ [\<lparr>Timeout = 60 * Second, Transport = DefaultTransport\<rparr>];
          c = \<lparr>apiKey = Getenv env ''SUPADATA_API_KEY'', baseURL = BaseUrl, client = Some defaultClient\<rparr>
      in case apply_opts opts c h1 of
           Inl p \<Rightarrow> Inl p
         | Inr (c', h') \<Rightarrow> Inr (\<lparr>config = c'\<rparr>, h'))"


section \<open>Requests and responses\<close>

text \<open>
  What the package calls outside itself: which URLs \<open>http.NewRequest\<close> accepts, what the
  transport answers to a request (an error text or a response), which number literals
  fit a \<open>float64\<close>, and the text \<open>json.Marshal\<close> writes for a value.
\<close>

record extern =
  url_ok :: "string \<Rightarrow> bool"
  Do :: "http_Client \<Rightarrow> Request \<Rightarrow> string + Response"
  float_ok :: "string \<Rightarrow> bool"
  json_text :: "json \<Rightarrow> string"

datatype error =
    URLError string              \<comment> \<open>\<open>http.NewRequest\<close> refused the URL\<close>
  | TransportError string        \<comment> \<open>the error of \<open>client.Do\<close>\<close>
  | ReadError string             \<comment> \<open>the error of \<open>io.ReadAll\<close>\<close>
  | APIError ErrorResponse       \<comment> \<open>\<open>*ErrorResponse\<close>\<close>
  | Errorf string                \<comment> \<open>\<open>fmt.Errorf\<close>, with its message\<close>
  | JSONError json_error         \<comment> \<open>the error of \<open>json.Unmarshal\<close>\<close>
  | Panicked panic               \<comment> \<open>not a returned error: the call panics\<close>

definition http_NewRequest :: "extern \<Rightarrow> string \<Rightarrow> string \<Rightarrow> string option \<Rightarrow> error + Request" where
  "http_NewRequest ext method url body =
     (case url_Parse (url_ok ext) url of
        None \<Rightarrow> Inl (URLError url)
      | Some u \<Rightarrow> Inr \<lparr>Method = method, URL = u, Header = Map.empty, Request.Body = body\<rparr>)"

definition setDefaultHeaders :: "Supadata \<Rightarrow> Request \<Rightarrow> Request" where
  "setDefaultHeaders s req =
     (let req = req\<lparr>Header := Header_Set (Header req) ''User-Agent'' ''supadata-go/1.0.0''\<rparr>
      in req\<lparr>Header := Header_Set (Header req) ''x-api-key'' (apiKey (config s))\<rparr>)"

definition prepareRequest :: "extern \<Rightarrow> Supadata \<Rightarrow> string \<Rightarrow> string \<Rightarrow> string option \<Rightarrow> error + Request" where
  "prepareRequest ext s method endpoint body =
     (case http_NewRequest ext method (baseURL (config s) @ endpoint) body of
        Inl err \<Rightarrow> Inl err
      | Inr req \<Rightarrow> Inr (setDefaultHeaders s req))"

text \<open>\<open>s.config.client.Do(req)\<close>\<close>

definition client_Do :: "extern \<Rightarrow> heap \<Rightarrow> Supadata \<Rightarrow> Request \<Rightarrow> error + Response" where
  "client_Do ext h s req =
     (case deref h (client (config s)) of
        None \<Rightarrow> Inl (Panicked NilPointerDereference)
      | Some c \<Rightarrow> (case Do ext c req of Inl err \<Rightarrow> Inl (TransportError err) | Inr resp \<Rightarrow> Inr resp))"

definition handleRawResponse :: "Response \<Rightarrow> error + string" where
  "handleRawResponse resp =
     (case Response.Body resp of
        ReadFailed err \<Rightarrow> Inl (ReadError err)
      | ReadOK body \<Rightarrow>
          if StatusCode resp \<ge> 400 then
            (case unmarshal_ErrorResponse body of
               Inl err \<Rightarrow> Inl (Errorf (''request failed with status '' @ Sprintf_d (StatusCode resp)))
             | Inr errResp \<Rightarrow> Inl (APIError errResp))
          else Inr body)"

text \<open>\<open>handleResponse[T]\<close>: \<open>unmarshal\<close> is \<open>json.Unmarshal\<close> into a zero \<open>T\<close>.\<close>

definition handleResponse :: "(string \<Rightarrow> json_error + 'a) \<Rightarrow> Response \<Rightarrow> error + 'a" where
  "handleResponse unmarshal resp =
     (case handleRawResponse resp of
        Inl err \<Rightarrow> Inl err
      | Inr body \<Rightarrow>
          (case unmarshal body of Inl err \<Rightarrow> Inl (JSONError err) | Inr result \<Rightarrow> Inr result))"

text \<open>The message of a returned error, for the two kinds this package makes.\<close>

definition Error :: "error \<Rightarrow> string option" where
  "Error err = (case err of APIError e \<Rightarrow> Some (ErrorResponse_Error e) | Errorf m \<Rightarrow> Some m | _ \<Rightarrow> None)"


section \<open>Endpoints\<close>

text \<open>
  Each endpoint is given in two parts: \<open>X_request\<close> is the request as the function hands
  it to \<open>client.Do\<close>, and \<open>X\<close> is the whole call. The decoder of an endpoint's result
  type is the argument \<open>unmarshal\<close>; \<open>Transcript\<close> has its own decoding.
\<close>

definition Native :: string where "Native = ''native''"
definition Auto :: string where "Auto = ''auto''"
definition Generate :: string where "Generate = ''generate''"

record TranscriptParams =
  Url :: string
  Lang :: string
  Text :: bool
  ChunkSize :: int
  Mode :: string

record ScrapeParams =
  Url :: string
  NoLinks :: bool
  Lang :: string

record MapParams =
  Url :: string
  NoLinks :: bool
  Lang :: string

record CrawlBody =
  Url :: string
  Limit :: int

record YouTubeSearchParams =
  Query :: string
  UploadDate :: string
  Type :: string
  Duration :: string
  SortBy :: string
  Features :: "string list"
  Limit :: int
  NextPageToken :: string

record YouTubeVideoBatchParams =
  VideoIds :: "string list"
  PlaylistId :: string
  ChannelId :: string
  Limit :: int

record YouTubeTranscriptParams =
  Url :: string
  VideoId :: string
  Text :: bool
  ChunkSize :: int
  Lang :: string

record YouTubeTranscriptBatchParams =
  VideoIds :: "string list"
  PlaylistId :: string
  ChannelId :: string
  Limit :: int
  Lang :: string
  Text :: bool

record YouTubeTranscriptTranslateParams =
  Url :: string
  VideoId :: string
  Text :: bool
  ChunkSize :: int
  Lang :: string

record YouTubeChannelVideosParams =
  Id :: string
  Limit :: int
  Type :: string

record YouTubePlaylistVideosParams =
  Id :: string
  Limit :: int

text \<open>
  \<open>json.Marshal\<close> of the three request bodies, up to the text of the value: the fields in
  the order of the struct, a field tagged \<open>omitempty\<close> left out when it is empty.
\<close>

definition omitempty :: "bool \<Rightarrow> string \<Rightarrow> json \<Rightarrow> (string \<times> json) list" where
  "omitempty is_empty name v = (if is_empty then [] else [(name, v)])"

definition marshal_CrawlBody :: "CrawlBody \<Rightarrow> json" where
  "marshal_CrawlBody b =
     JObject ([(''url'', JString (CrawlBody.Url b))]
       @ omitempty (CrawlBody.Limit b = 0) ''limit'' (JNumber (Sprintf_d (CrawlBody.Limit b))))"

definition marshal_YouTubeVideoBatchParams :: "YouTubeVideoBatchParams \<Rightarrow> json" where
  "marshal_YouTubeVideoBatchParams b =
     JObject (omitempty (YouTubeVideoBatchParams.VideoIds b = []) ''videoIds''
                (JArray (map JString (YouTubeVideoBatchParams.VideoIds b)))
       @ omitempty (YouTubeVideoBatchParams.PlaylistId b = []) ''playlistId''
           (JString (YouTubeVideoBatchParams.PlaylistId b))
       @ omitempty (YouTubeVideoBatchParams.ChannelId b = []) ''channelId''
           (JString (YouTubeVideoBatchParams.ChannelId b))
       @ omitempty (YouTubeVideoBatchParams.Limit b = 0) ''limit''
           (JNumber (Sprintf_d (YouTubeVideoBatchParams.Limit b))))"

definition marshal_YouTubeTranscriptBatchParams :: "YouTubeTranscriptBatchParams \<Rightarrow> json" where
  "marshal_YouTubeTranscriptBatchParams b =
     JObject (omitempty (YouTubeTranscriptBatchParams.VideoIds b = []) ''videoIds''
                (JArray (map JString (YouTubeTranscriptBatchParams.VideoIds b)))
       @ omitempty (YouTubeTranscriptBatchParams.PlaylistId b = []) ''playlistId''
           (JString (YouTubeTranscriptBatchParams.PlaylistId b))
       @ omitempty (YouTubeTranscriptBatchParams.ChannelId b = []) ''channelId''
           (JString (YouTubeTranscriptBatchParams.ChannelId b))
       @ omitempty (YouTubeTranscriptBatchParams.Limit b = 0) ''limit''
           (JNumber (Sprintf_d (YouTubeTranscriptBatchParams.Limit b)))
       @ omitempty (YouTubeTranscriptBatchParams.Lang b = []) ''lang''
           (JString (YouTubeTranscriptBatchParams.Lang b))
       @ omitempty (\<not> YouTubeTranscriptBatchParams.Text b) ''text'' (JBool True))"

text \<open>\<open>req.URL.RawQuery = q.Encode()\<close>\<close>

definition set_RawQuery :: "Request \<Rightarrow> Values \<Rightarrow> Request" where
  "set_RawQuery req q = req\<lparr>URL := (URL req)\<lparr>RawQuery := Values_Encode q\<rparr>\<rparr>"

subsection \<open>Universal endpoints\<close>

definition Transcript_request :: "extern \<Rightarrow> Supadata \<Rightarrow> TranscriptParams \<Rightarrow> error + Request" where
  "Transcript_request ext s params =
     (case prepareRequest ext s ''GET'' ''/transcript'' None of
        Inl err \<Rightarrow> Inl err
      | Inr req \<Rightarrow>
          (let q = URL_Query (URL req);
               q = Values_Set q ''url'' (TranscriptParams.Url params);
               q = (if TranscriptParams.Lang params \<noteq> [] then Values_Set q ''lang'' (TranscriptParams.Lang params) else q);
               q = (if TranscriptParams.Text params then Values_Set q ''text'' ''true'' else q);
               q = (if TranscriptParams.ChunkSize params > 0
                    then Values_Set q ''chunkSize'' (Sprintf_d (TranscriptParams.ChunkSize params)) else q);
               q = (if Mode params \<noteq> [] then Values_Set q ''mode'' (Mode params)
                    else Values_Set q ''mode'' Auto)
           in Inr (set_RawQuery req q)))"

text \<open>
  The decoding of \<open>Transcript\<close>: the body is first read as a map of raw members; with a
  key \<open>jobId\<close> it is decoded as an \<open>AsyncTranscript\<close>, without one as a \<open>SyncTranscript\<close>.
\<close>

definition Transcript_decode :: "extern \<Rightarrow> Response \<Rightarrow> error + Transcript" where
  "Transcript_decode ext resp =
     (case handleRawResponse resp of
        Inl err \<Rightarrow> Inl err
      | Inr body \<Rightarrow>
          (case unmarshal_RawMap body of
             Inl err \<Rightarrow> Inl (JSONError err)
           | Inr raw \<Rightarrow>
               if raw ''jobId'' \<noteq> None then
                 (case unmarshal_AsyncTranscript body of
                    Inl err \<Rightarrow> Inl (JSONError err)
                  | Inr async \<Rightarrow> Inr \<lparr>Sync = None, Async = Some async\<rparr>)
               else
                 (case unmarshal_SyncTranscript (float_ok ext) body of
                    Inl err \<Rightarrow> Inl (JSONError err)
                  | Inr sync \<Rightarrow> Inr \<lparr>Sync = Some sync, Async = None\<rparr>)))"

definition Transcript :: "extern \<Rightarrow> heap \<Rightarrow> Supadata \<Rightarrow> TranscriptParams \<Rightarrow> error + Transcript" where
  "Transcript ext h s params =
     (case Transcript_request ext s params of
        Inl err \<Rightarrow> Inl err
      | Inr req \<Rightarrow>
          (case client_Do ext h s req of
             Inl err \<Rightarrow> Inl err
           | Inr resp \<Rightarrow> Transcript_decode ext resp))"

definition TranscriptResult_request :: "extern \<Rightarrow> Supadata \<Rightarrow> string \<Rightarrow> error + Request" where
  "TranscriptResult_request ext s jobId = prepareRequest ext s ''GET'' (''/transcript/'' @ jobId) None"

definition TranscriptResult ::
  "extern \<Rightarrow> (string \<Rightarrow> json_error + 'a) \<Rightarrow> heap \<Rightarrow> Supadata \<Rightarrow> string \<Rightarrow> error + 'a" where
  "TranscriptResult ext unmarshal h s jobId =
     (case TranscriptResult_request ext s jobId of
        Inl err \<Rightarrow> Inl err
      | Inr req \<Rightarrow>
          (case client_Do ext h s req of
             Inl err \<Rightarrow> Inl err
           | Inr resp \<Rightarrow> handleResponse unmarshal resp))"

definition Metadata_request :: "extern \<Rightarrow> Supadata \<Rightarrow> string \<Rightarrow> error + Request" where
  "Metadata_request ext s url =
     (case prepareRequest ext s ''GET'' ''/metadata'' None of
        Inl err \<Rightarrow> Inl err
      | Inr req \<Rightarrow>
          (let q = URL_Query (URL req);
               q = Values_Set q ''url'' url
           in Inr (set_RawQuery req q)))"

definition Metadata ::
  "extern \<Rightarrow> (string \<Rightarrow> json_error + 'a) \<Rightarrow> heap \<Rightarrow> Supadata \<Rightarrow> string \<Rightarrow> error + 'a" where
  "Metadata ext unmarshal h s url =
     (case Metadata_request ext s url of
        Inl err \<Rightarrow> Inl err
      | Inr req \<Rightarrow>
          (case client_Do ext h s req of
             Inl err \<Rightarrow> Inl err
           | Inr resp \<Rightarrow> handleResponse unmarshal resp))"

subsection \<open>Account endpoints\<close>

definition Me_request :: "extern \<Rightarrow> Supadata \<Rightarrow> error + Request" where
  "Me_request ext s = prepareRequest ext s ''GET'' ''/me'' None"

definition Me :: "extern \<Rightarrow> (string \<Rightarrow> json_error + 'a) \<Rightarrow> heap \<Rightarrow> Supadata \<Rightarrow> error + 'a" where
  "Me ext unmarshal h s =
     (case Me_request ext s of
        Inl err \<Rightarrow> Inl err
      | Inr req \<Rightarrow>
          (case client_Do ext h s req of
             Inl err \<Rightarrow> Inl err
           | Inr resp \<Rightarrow> handleResponse unmarshal resp))"

subsection \<open>Web endpoints\<close>

definition Scrape_request :: "extern \<Rightarrow> Supadata \<Rightarrow> ScrapeParams \<Rightarrow> error + Request" where
  "Scrape_request ext s params =
     (case prepareRequest ext s ''GET'' ''/web/scrape'' None of
        Inl err \<Rightarrow> Inl err
      | Inr req \<Rightarrow>
          (let q = URL_Query (URL req);
               q = Values_Set q ''url'' (ScrapeParams.Url params);
               q = (if ScrapeParams.NoLinks params then Values_Set q ''noLinks'' ''true'' else q);
               q = (if ScrapeParams.Lang params \<noteq> [] then Values_Set q ''lang'' (ScrapeParams.Lang params) else q)
           in Inr (set_RawQuery req q)))"

definition Scrape ::
  "extern \<Rightarrow> (string \<Rightarrow> json_error + 'a) \<Rightarrow> heap \<Rightarrow> Supadata \<Rightarrow> ScrapeParams \<Rightarrow> error + 'a" where
  "Scrape ext unmarshal h s params =
     (case Scrape_request ext s params of
        Inl err \<Rightarrow> Inl err
      | Inr req \<Rightarrow>
          (case client_Do ext h s req of
             Inl err \<Rightarrow> Inl err
           | Inr resp \<Rightarrow> handleResponse unmarshal resp))"

definition Map_request :: "extern \<Rightarrow> Supadata \<Rightarrow> MapParams \<Rightarrow> error + Request" where
  "Map_request ext s params =
     (case prepareRequest ext s ''GET'' ''/web/map'' None of
        Inl err \<Rightarrow> Inl err
      | Inr req \<Rightarrow>
          (let q = URL_Query (URL req);
               q = Values_Set q ''url'' (MapParams.Url params);
               q = (if MapParams.NoLinks params then Values_Set q ''noLinks'' ''true'' else q);
               q = (if MapParams.Lang params \<noteq> [] then Values_Set q ''lang'' (MapParams.Lang params) else q)
           in Inr (set_RawQuery req q)))"

definition Map ::
  "extern \<Rightarrow> (string \<Rightarrow> json_error + 'a) \<Rightarrow> heap \<Rightarrow> Supadata \<Rightarrow> MapParams \<Rightarrow> error + 'a" where
  "Map ext unmarshal h s params =
     (case Map_request ext s params of
        Inl err \<Rightarrow> Inl err
      | Inr req \<Rightarrow>
          (case client_Do ext h s req of
             Inl err \<Rightarrow> Inl err
           | Inr resp \<Rightarrow> handleResponse unmarshal resp))"

definition Crawl_request :: "extern \<Rightarrow> Supadata \<Rightarrow> CrawlBody \<Rightarrow> error + Request" where
  "Crawl_request ext s params =
     (let body = json_text ext (marshal_CrawlBody params)
      in case prepareRequest ext s ''POST'' ''/web/crawl'' (Some body) of
           Inl err \<Rightarrow> Inl err
         | Inr req \<Rightarrow> Inr (req\<lparr>Header := Header_Set (Header req) ''Content-Type'' ''application/json''\<rparr>))"

definition Crawl ::
  "extern \<Rightarrow> (string \<Rightarrow> json_error + 'a) \<Rightarrow> heap \<Rightarrow> Supadata \<Rightarrow> CrawlBody \<Rightarrow> error + 'a" where
  "Crawl ext unmarshal h s params =
     (case Crawl_request ext s params of
        Inl err \<Rightarrow> Inl err
      | Inr req \<Rightarrow>
          (case client_Do ext h s req of
             Inl err \<Rightarrow> Inl err
           | Inr resp \<Rightarrow> handleResponse unmarshal resp))"

definition CrawlResult_request :: "extern \<Rightarrow> Supadata \<Rightarrow> string \<Rightarrow> int \<Rightarrow> error + Request" where
  "CrawlResult_request ext s jobId skip =
     (case prepareRequest ext s ''GET'' (''/web/crawl/'' @ jobId) None of
        Inl err \<Rightarrow> Inl err
      | Inr req \<Rightarrow>
          if skip > 0 then
            (let q = URL_Query (URL req);
                 q = Values_Set q ''skip'' (Sprintf_d skip)
             in Inr (set_RawQuery req q))
          else Inr req)"

definition CrawlResult ::
  "extern \<Rightarrow> (string \<Rightarrow> json_error + 'a) \<Rightarrow> heap \<Rightarrow> Supadata \<Rightarrow> string \<Rightarrow> int \<Rightarrow> error + 'a" where
  "CrawlResult ext unmarshal h s jobId skip =
     (case CrawlResult_request ext s jobId skip of
        Inl err \<Rightarrow> Inl err
      | Inr req \<Rightarrow>
          (case client_Do ext h s req of
             Inl err \<Rightarrow> Inl err
           | Inr resp \<Rightarrow> handleResponse unmarshal resp))"

subsection \<open>YouTube endpoints\<close>

definition YouTubeSearch_request :: "extern \<Rightarrow> Supadata \<Rightarrow> YouTubeSearchParams \<Rightarrow> error + Request" where
  "YouTubeSearch_request ext s params =
     (case prepareRequest ext s ''GET'' ''/youtube/search'' None of
        Inl err \<Rightarrow> Inl err
      | Inr req \<Rightarrow>
          (let q = URL_Query (URL req);
               q = Values_Set q ''query'' (Query params);
               q = (if YouTubeSearchParams.UploadDate params \<noteq> [] then Values_Set q ''uploadDate'' (YouTubeSearchParams.UploadDate params) else q);
               q = (if YouTubeSearchParams.Type params \<noteq> [] then Values_Set q ''type'' (YouTubeSearchParams.Type params) else q);
               q = (if YouTubeSearchParams.Duration params \<noteq> [] then Values_Set q ''duration'' (YouTubeSearchParams.Duration params) else q);
               q = (if YouTubeSearchParams.SortBy params \<noteq> [] then Values_Set q ''sortBy'' (YouTubeSearchParams.SortBy params) else q);
               q = (if Features params \<noteq> [] then fold (\<lambda>f q. Values_Add q ''features'' f) (Features params) q else q);
               q = (if YouTubeSearchParams.Limit params > 0 then Values_Set q ''limit'' (Sprintf_d (YouTubeSearchParams.Limit params)) else q);
               q = (if YouTubeSearchParams.NextPageToken params \<noteq> [] then Values_Set q ''nextPageToken'' (YouTubeSearchParams.NextPageToken params) else q)
           in Inr (set_RawQuery req q)))"

definition YouTubeSearch ::
  "extern \<Rightarrow> (string \<Rightarrow> json_error + 'a) \<Rightarrow> heap \<Rightarrow> Supadata \<Rightarrow> YouTubeSearchParams \<Rightarrow> error + 'a" where
  "YouTubeSearch ext unmarshal h s params =
     (case YouTubeSearch_request ext s params of
        Inl err \<Rightarrow> Inl err
      | Inr req \<Rightarrow>
          (case client_Do ext h s req of
             Inl err \<Rightarrow> Inl err
           | Inr resp \<Rightarrow> handleResponse unmarshal resp))"

definition YouTubeVideo_request :: "extern \<Rightarrow> Supadata \<Rightarrow> string \<Rightarrow> error + Request" where
  "YouTubeVideo_request ext s ident =
     (case prepareRequest ext s ''GET'' ''/youtube/video'' None of
        Inl err \<Rightarrow> Inl err
      | Inr req \<Rightarrow>
          (let q = URL_Query (URL req);
               q = Values_Set q ''id'' ident
           in Inr (set_RawQuery req q)))"

definition YouTubeVideo ::
  "extern \<Rightarrow> (string \<Rightarrow> json_error + 'a) \<Rightarrow> heap \<Rightarrow> Supadata \<Rightarrow> string \<Rightarrow> error + 'a" where
  "YouTubeVideo ext unmarshal h s ident =
     (case YouTubeVideo_request ext s ident of
        Inl err \<Rightarrow> Inl err
      | Inr req \<Rightarrow>
          (case client_Do ext h s req of
             Inl err \<Rightarrow> Inl err
           | Inr resp \<Rightarrow> handleResponse unmarshal resp))"

definition YouTubeVideoBatch_request :: "extern \<Rightarrow> Supadata \<Rightarrow> YouTubeVideoBatchParams \<Rightarrow> error + Request" where
  "YouTubeVideoBatch_request ext s params =
     (let body = json_text ext (marshal_YouTubeVideoBatchParams params)
      in case prepareRequest ext s ''POST'' ''/youtube/video/batch'' (Some body) of
           Inl err \<Rightarrow> Inl err
         | Inr req \<Rightarrow> Inr (req\<lparr>Header := Header_Set (Header req) ''Content-Type'' ''application/json''\<rparr>))"

definition YouTubeVideoBatch ::
  "extern \<Rightarrow> (string \<Rightarrow> json_error + 'a) \<Rightarrow> heap \<Rightarrow> Supadata \<Rightarrow> YouTubeVideoBatchParams \<Rightarrow> error + 'a" where
  "YouTubeVideoBatch ext unmarshal h s params =
     (case YouTubeVideoBatch_request ext s params of
        Inl err \<Rightarrow> Inl err
      | Inr req \<Rightarrow>
          (case client_Do ext h s req of
             Inl err \<Rightarrow> Inl err
           | Inr resp \<Rightarrow> handleResponse unmarshal resp))"

definition YouTubeTranscript_request :: "extern \<Rightarrow> Supadata \<Rightarrow> YouTubeTranscriptParams \<Rightarrow> error + Request" where
  "YouTubeTranscript_request ext s params =
     (case prepareRequest ext s ''GET'' ''/youtube/transcript'' None of
        Inl err \<Rightarrow> Inl err
      | Inr req \<Rightarrow>
          (let q = URL_Query (URL req);
               q = (if YouTubeTranscriptParams.Url params \<noteq> [] then Values_Set q ''url'' (YouTubeTranscriptParams.Url params) else q);
               q = (if YouTubeTranscriptParams.VideoId params \<noteq> [] then Values_Set q ''videoId'' (YouTubeTranscriptParams.VideoId params) else q);
               q = (if YouTubeTranscriptParams.Text params then Values_Set q ''text'' ''true'' else q);
               q = (if YouTubeTranscriptParams.ChunkSize params > 0 then Values_Set q ''chunkSize'' (Sprintf_d (YouTubeTranscriptParams.ChunkSize params)) else q);
               q = (if YouTubeTranscriptParams.Lang params \<noteq> [] then Values_Set q ''lang'' (YouTubeTranscriptParams.Lang params) else q)
           in Inr (set_RawQuery req q)))"

definition YouTubeTranscript ::
  "extern \<Rightarrow> (string \<Rightarrow> json_error + 'a) \<Rightarrow> heap \<Rightarrow> Supadata \<Rightarrow> YouTubeTranscriptParams \<Rightarrow> error + 'a" where
  "YouTubeTranscript ext unmarshal h s params =
     (case YouTubeTranscript_request ext s params of
        Inl err \<Rightarrow> Inl err
      | Inr req \<Rightarrow>
          (case client_Do ext h s req of
             Inl err \<Rightarrow> Inl err
           | Inr resp \<Rightarrow> handleResponse unmarshal resp))"

definition YouTubeTranscriptBatch_request :: "extern \<Rightarrow> Supadata \<Rightarrow> YouTubeTranscriptBatchParams \<Rightarrow> error + Request" where
  "YouTubeTranscriptBatch_request ext s params =
     (let body = json_text ext (marshal_YouTubeTranscriptBatchParams params)
      in case prepareRequest ext s ''POST'' ''/youtube/transcript/batch'' (Some body) of
           Inl err \<Rightarrow> Inl err
         | Inr req \<Rightarrow> Inr (req\<lparr>Header := Header_Set (Header req) ''Content-Type'' ''application/json''\<rparr>))"

definition YouTubeTranscriptBatch ::
  "extern \<Rightarrow> (string \<Rightarrow> json_error + 'a) \<Rightarrow> heap \<Rightarrow> Supadata \<Rightarrow> YouTubeTranscriptBatchParams \<Rightarrow> error + 'a" where
  "YouTubeTranscriptBatch ext unmarshal h s params =
     (case YouTubeTranscriptBatch_request ext s params of
        Inl err \<Rightarrow> Inl err
      | Inr req \<Rightarrow>
          (case client_Do ext h s req of
             Inl err \<Rightarrow> Inl err
           | Inr resp \<Rightarrow> handleResponse unmarshal resp))"

definition YouTubeTranscriptTranslate_request :: "extern \<Rightarrow> Supadata \<Rightarrow> YouTubeTranscriptTranslateParams \<Rightarrow> error + Request" where
  "YouTubeTranscriptTranslate_request ext s params =
     (case prepareRequest ext s ''GET'' ''/youtube/transcript/translate'' None of
        Inl err \<Rightarrow> Inl err
      | Inr req \<Rightarrow>
          (let q = URL_Query (URL req);
               q = (if YouTubeTranscriptTranslateParams.Url params \<noteq> [] then Values_Set q ''url'' (YouTubeTranscriptTranslateParams.Url params) else q);
               q = (if YouTubeTranscriptTranslateParams.VideoId params \<noteq> [] then Values_Set q ''videoId'' (YouTubeTranscriptTranslateParams.VideoId params) else q);
               q = (if YouTubeTranscriptTranslateParams.Text params then Values_Set q ''text'' ''true'' else q);
               q = (if YouTubeTranscriptTranslateParams.ChunkSize params > 0 then Values_Set q ''chunkSize'' (Sprintf_d (YouTubeTranscriptTranslateParams.ChunkSize params)) else q);
               q = Values_Set q ''lang'' (YouTubeTranscriptTranslateParams.Lang params)
           in Inr (set_RawQuery req q)))"

definition YouTubeTranscriptTranslate ::
  "extern \<Rightarrow> (string \<Rightarrow> json_error + 'a) \<Rightarrow> heap \<Rightarrow> Supadata \<Rightarrow> YouTubeTranscriptTranslateParams \<Rightarrow> error + 'a" where
  "YouTubeTranscriptTranslate ext unmarshal h s params =
     (case YouTubeTranscriptTranslate_request ext s params of
        Inl err \<Rightarrow> Inl err
      | Inr req \<Rightarrow>
          (case client_Do ext h s req of
             Inl err \<Rightarrow> Inl err
           | Inr resp \<Rightarrow> handleResponse unmarshal resp))"

definition YouTubeChannel_request :: "extern \<Rightarrow> Supadata \<Rightarrow> string \<Rightarrow> error + Request" where
  "YouTubeChannel_request ext s ident =
     (case prepareRequest ext s ''GET'' ''/youtube/channel'' None of
        Inl err \<Rightarrow> Inl err
      | Inr req \<Rightarrow>
          (let q = URL_Query (URL req);
               q = Values_Set q ''id'' ident
           in Inr (set_RawQuery req q)))"

definition YouTubeChannel ::
  "extern \<Rightarrow> (string \<Rightarrow> json_error + 'a) \<Rightarrow> heap \<Rightarrow> Supadata \<Rightarrow> string \<Rightarrow> error + 'a" where
  "YouTubeChannel ext unmarshal h s ident =
     (case YouTubeChannel_request ext s ident of
        Inl err \<Rightarrow> Inl err
      | Inr req \<Rightarrow>
          (case client_Do ext h s req of
             Inl err \<Rightarrow> Inl err
           | Inr resp \<Rightarrow> handleResponse unmarshal resp))"

definition YouTubePlaylist_request :: "extern \<Rightarrow> Supadata \<Rightarrow> string \<Rightarrow> error + Request" where
  "YouTubePlaylist_request ext s ident =
     (case prepareRequest ext s ''GET'' ''/youtube/playlist'' None of
        Inl err \<Rightarrow> Inl err
      | Inr req \<Rightarrow>
          (let q = URL_Query (URL req);
               q = Values_Set q ''id'' ident
           in Inr (set_RawQuery req q)))"

definition YouTubePlaylist ::
  "extern \<Rightarrow> (string \<Rightarrow> json_error + 'a) \<Rightarrow> heap \<Rightarrow> Supadata \<Rightarrow> string \<Rightarrow> error + 'a" where
  "YouTubePlaylist ext unmarshal h s ident =
     (case YouTubePlaylist_request ext s ident of
        Inl err \<Rightarrow> Inl err
      | Inr req \<Rightarrow>
          (case client_Do ext h s req of
             Inl err \<Rightarrow> Inl err
           | Inr resp \<Rightarrow> handleResponse unmarshal resp))"

definition YouTubeChannelVideos_request :: "extern \<Rightarrow> Supadata \<Rightarrow> YouTubeChannelVideosParams \<Rightarrow> error + Request" where
  "YouTubeChannelVideos_request ext s params =
     (case prepareRequest ext s ''GET'' ''/youtube/channel/videos'' None of
        Inl err \<Rightarrow> Inl err
      | Inr req \<Rightarrow>
          (let q = URL_Query (URL req);
               q = Values_Set q ''id'' (YouTubeChannelVideosParams.Id params);
               q = (if YouTubeChannelVideosParams.Limit params > 0 then Values_Set q ''limit'' (Sprintf_d (YouTubeChannelVideosParams.Limit params)) else q);
               q = (if YouTubeChannelVideosParams.Type params \<noteq> [] then Values_Set q ''type'' (YouTubeChannelVideosParams.Type params) else q)
           in Inr (set_RawQuery req q)))"

definition YouTubeChannelVideos ::
  "extern \<Rightarrow> (string \<Rightarrow> json_error + 'a) \<Rightarrow> heap \<Rightarrow> Supadata \<Rightarrow> YouTubeChannelVideosParams \<Rightarrow> error + 'a" where
  "YouTubeChannelVideos ext unmarshal h s params =
     (case YouTubeChannelVideos_request ext s params of
        Inl err \<Rightarrow> Inl err
      | Inr req \<Rightarrow>
          (case client_Do ext h s req of
             Inl err \<Rightarrow> Inl err
           | Inr resp \<Rightarrow> handleResponse unmarshal resp))"

definition YouTubePlaylistVideos_request :: "extern \<Rightarrow> Supadata \<Rightarrow> YouTubePlaylistVideosParams \<Rightarrow> error + Request" where
  "YouTubePlaylistVideos_request ext s params =
     (case prepareRequest ext s ''GET'' ''/youtube/playlist/videos'' None of
        Inl err \<Rightarrow> Inl err
      | Inr req \<Rightarrow>
          (let q = URL_Query (URL req);
               q = Values_Set q ''id'' (YouTubePlaylistVideosParams.Id params);
               q = (if YouTubePlaylistVideosParams.Limit params > 0 then Values_Set q ''limit'' (Sprintf_d (YouTubePlaylistVideosParams.Limit params)) else q)
           in Inr (set_RawQuery req q)))"

definition YouTubePlaylistVideos ::
  "extern \<Rightarrow> (string \<Rightarrow> json_error + 'a) \<Rightarrow> heap \<Rightarrow> Supadata \<Rightarrow> YouTubePlaylistVideosParams \<Rightarrow> error + 'a" where
  "YouTubePlaylistVideos ext unmarshal h s params =
     (case YouTubePlaylistVideos_request ext s params of
        Inl err \<Rightarrow> Inl err
      | Inr req \<Rightarrow>
          (case client_Do ext h s req of
             Inl err \<Rightarrow> Inl err
           | Inr resp \<Rightarrow> handleResponse unmarshal resp))"

definition YouTubeBatchResult_request :: "extern \<Rightarrow> Supadata \<Rightarrow> string \<Rightarrow> error + Request" where
  "YouTubeBatchResult_request ext s jobId = prepareRequest ext s ''GET'' (''/youtube/batch/'' @ jobId) None"

definition YouTubeBatchResult ::
  "extern \<Rightarrow> (string \<Rightarrow> json_error + 'a) \<Rightarrow> heap \<Rightarrow> Supadata \<Rightarrow> string \<Rightarrow> error + 'a" where
  "YouTubeBatchResult ext unmarshal h s jobId =
     (case YouTubeBatchResult_request ext s jobId of
        Inl err \<Rightarrow> Inl err
      | Inr req \<Rightarrow>
          (case client_Do ext h s req of
             Inl err \<Rightarrow> Inl err
           | Inr resp \<Rightarrow> handleResponse unmarshal resp))"

subsection \<open>The operations together\<close>

text \<open>
  A call of the client names an endpoint and gives its arguments. \<open>request_of\<close> is the
  request the call sends and \<open>call\<close> its result: the \<open>Transcript\<close> of the first endpoint
  on the left, the decoded result of any other on the right.
\<close>

datatype operation =
    OpTranscript TranscriptParams
  | OpTranscriptResult string
  | OpMetadata string
  | OpMe
  | OpScrape ScrapeParams
  | OpMap MapParams
  | OpCrawl CrawlBody
  | OpCrawlResult string int
  | OpYouTubeSearch YouTubeSearchParams
  | OpYouTubeVideo string
  | OpYouTubeVideoBatch YouTubeVideoBatchParams
  | OpYouTubeTranscript YouTubeTranscriptParams
  | OpYouTubeTranscriptBatch YouTubeTranscriptBatchParams
  | OpYouTubeTranscriptTranslate YouTubeTranscriptTranslateParams
  | OpYouTubeChannel string
  | OpYouTubePlaylist string
  | OpYouTubeChannelVideos YouTubeChannelVideosParams
  | OpYouTubePlaylistVideos YouTubePlaylistVideosParams
  | OpYouTubeBatchResult string

fun request_of :: "extern \<Rightarrow> Supadata \<Rightarrow> operation \<Rightarrow> error + Request" where
  "request_of ext s (OpTranscript a) = Transcript_request ext s a"
| "request_of ext s (OpTranscriptResult a) = TranscriptResult_request ext s a"
| "request_of ext s (OpMetadata a) = Metadata_request ext s a"
| "request_of ext s OpMe = Me_request ext s"
| "request_of ext s (OpScrape a) = Scrape_request ext s a"
| "request_of ext s (OpMap a) = Map_request ext s a"
| "request_of ext s (OpCrawl a) = Crawl_request ext s a"
| "request_of ext s (OpCrawlResult a b) = CrawlResult_request ext s a b"
| "request_of ext s (OpYouTubeSearch a) = YouTubeSearch_request ext s a"
| "request_of ext s (OpYouTubeVideo a) = YouTubeVideo_request ext s a"
| "request_of ext s (OpYouTubeVideoBatch a) = YouTubeVideoBatch_request ext s a"
| "request_of ext s (OpYouTubeTranscript a) = YouTubeTranscript_request ext s a"
| "request_of ext s (OpYouTubeTranscriptBatch a) = YouTubeTranscriptBatch_request ext s a"
| "request_of ext s (OpYouTubeTranscriptTranslate a) = YouTubeTranscriptTranslate_request ext s a"
| "request_of ext s (OpYouTubeChannel a) = YouTubeChannel_request ext s a"
| "request_of ext s (OpYouTubePlaylist a) = YouTubePlaylist_request ext s a"
| "request_of ext s (OpYouTubeChannelVideos a) = YouTubeChannelVideos_request ext s a"
| "request_of ext s (OpYouTubePlaylistVideos a) = YouTubePlaylistVideos_request ext s a"
| "request_of ext s (OpYouTubeBatchResult a) = YouTubeBatchResult_request ext s a"

fun call ::
  "extern \<Rightarrow> (string \<Rightarrow> json_error + 'a) \<Rightarrow> heap \<Rightarrow> Supadata \<Rightarrow> operation \<Rightarrow> error + (Transcript + 'a)" where
  "call ext unmarshal h s (OpTranscript a) = map_sum id Inl (Transcript ext h s a)"
| "call ext unmarshal h s (OpTranscriptResult a) = map_sum id Inr (TranscriptResult ext unmarshal h s a)"
| "call ext unmarshal h s (OpMetadata a) = map_sum id Inr (Metadata ext unmarshal h s a)"
| "call ext unmarshal h s OpMe = map_sum id Inr (Me ext unmarshal h s)"
| "call ext unmarshal h s (OpScrape a) = map_sum id Inr (Scrape ext unmarshal h s a)"
| "call ext unmarshal h s (OpMap a) = map_sum id Inr (Map ext unmarshal h s a)"
| "call ext unmarshal h s (OpCrawl a) = map_sum id Inr (Crawl ext unmarshal h s a)"
| "call ext unmarshal h s (OpCrawlResult a b) = map_sum id Inr (CrawlResult ext unmarshal h s a b)"
| "call ext unmarshal h s (OpYouTubeSearch a) = map_sum id Inr (YouTubeSearch ext unmarshal h s a)"
| "call ext unmarshal h s (OpYouTubeVideo a) = map_sum id Inr (YouTubeVideo ext unmarshal h s a)"
| "call ext unmarshal h s (OpYouTubeVideoBatch a) = map_sum id Inr (YouTubeVideoBatch ext unmarshal h s a)"
| "call ext unmarshal h s (OpYouTubeTranscript a) = map_sum id Inr (YouTubeTranscript ext unmarshal h s a)"
| "call ext unmarshal h s (OpYouTubeTranscriptBatch a) = map_sum id Inr (YouTubeTranscriptBatch ext unmarshal h s a)"
| "call ext unmarshal h s (OpYouTubeTranscriptTranslate a) = map_sum id Inr (YouTubeTranscriptTranslate ext unmarshal h s a)"
| "call ext unmarshal h s (OpYouTubeChannel a) = map_sum id Inr (YouTubeChannel ext unmarshal h s a)"
| "call ext unmarshal h s (OpYouTubePlaylist a) = map_sum id Inr (YouTubePlaylist ext unmarshal h s a)"
| "call ext unmarshal h s (OpYouTubeChannelVideos a) = map_sum id Inr (YouTubeChannelVideos ext unmarshal h s a)"
| "call ext unmarshal h s (OpYouTubePlaylistVideos a) = map_sum id Inr (YouTubePlaylistVideos ext unmarshal h s a)"
| "call ext unmarshal h s (OpYouTubeBatchResult a) = map_sum id Inr (YouTubeBatchResult ext unmarshal h s a)"

text \<open>What a call makes of the response to its request.\<close>

definition decode :: "extern \<Rightarrow> (string \<Rightarrow> json_error + 'a) \<Rightarrow> operation \<Rightarrow> Response \<Rightarrow> error + (Transcript + 'a)" where
  "decode ext unmarshal op resp =
     (case op of
        OpTranscript _ \<Rightarrow> map_sum id Inl (Transcript_decode ext resp)
      | _ \<Rightarrow> map_sum id Inr (handleResponse unmarshal resp))"

lemma call_decode:
  "call ext unmarshal h s op =
     (case request_of ext s op of
        Inl err \<Rightarrow> Inl err
      | Inr req \<Rightarrow>
          (case client_Do ext h s req of
             Inl err \<Rightarrow> Inl err
           | Inr resp \<Rightarrow> decode ext unmarshal op resp))"
  by (cases op)
    (simp_all add: decode_def Transcript_def TranscriptResult_def Metadata_def Me_def Scrape_def
      Map_def Crawl_def CrawlResult_def YouTubeSearch_def YouTubeVideo_def YouTubeVideoBatch_def
      YouTubeTranscript_def YouTubeTranscriptBatch_def YouTubeTranscriptTranslate_def
      YouTubeChannel_def YouTubePlaylist_def YouTubeChannelVideos_def YouTubePlaylistVideos_def
      YouTubeBatchResult_def split: sum.splits)

section \<open>Fixtures for the concrete instances\<close>

text \<open>
  A world in which every URL is accepted and the transport answers every request with
  the same response, and a client as \<open>NewSupadata\<close> builds it on an empty heap.
\<close>

definition fixed_reply :: "Response \<Rightarrow> extern" where
  "fixed_reply resp =
     \<lparr>url_ok = (\<lambda>u. True), Do = (\<lambda>c req. Inr resp), float_ok = (\<lambda>lit. True), json_text = (\<lambda>v. [])\<rparr>"

definition plain_heap :: heap where
  "plain_heap = [\<lparr>Timeout = 60 * Second, Transport = DefaultTransport\<rparr>]"

definition plain_client :: Supadata where
  "plain_client = \<lparr>config = \<lparr>apiKey = ''key'', baseURL = BaseUrl, client = Some 0\<rparr>\<rparr>"

lemma plain_client_Do: "client_Do (fixed_reply resp) plain_heap plain_client req = Inr resp"
  by (simp add: client_Do_def fixed_reply_def plain_heap_def plain_client_def deref_def)

lemma Me_request_plain: "\<exists>req. request_of (fixed_reply resp) plain_client OpMe = Inr req"
  by (simp add: Me_request_def prepareRequest_def http_NewRequest_def fixed_reply_def url_Parse_def Let_def)


section \<open>Failure responses\<close>

lemma Unmarshal_syntax: "json_parse data = None \<Longrightarrow> Unmarshal store init data = Inl SyntaxError"
  by (simp add: Unmarshal_def)

lemma handleRawResponse_failure:
  "400 \<le> StatusCode resp \<Longrightarrow> Response.Body resp = ReadOK body \<Longrightarrow>
   handleRawResponse resp =
     (case unmarshal_ErrorResponse body of
        Inl err \<Rightarrow> Inl (Errorf (''request failed with status '' @ Sprintf_d (StatusCode resp)))
      | Inr errResp \<Rightarrow> Inl (APIError errResp))"
  by (simp add: handleRawResponse_def)

lemma decode_failure:
  "handleRawResponse resp = Inl err \<Longrightarrow> decode ext unmarshal op resp = Inl err"
  by (cases op) (simp_all add: decode_def handleResponse_def Transcript_decode_def)

lemma call_response:
  "request_of ext s op = Inr req \<Longrightarrow> client_Do ext h s req = Inr resp \<Longrightarrow>
   call ext unmarshal h s op = decode ext unmarshal op resp"
  by (simp add: call_decode)

lemma Sprintf_d_502: "Sprintf_d 502 = ''502''"
  by code_simp

lemma bad_gateway_syntax: "json_parse ''Bad Gateway'' = None"
  by code_simp

text \<open>
  C3. When an exchange completes with status 502 and a body that is not valid JSON, the
  call returns the error made by \<open>fmt.Errorf\<close> whose message is exactly
  \<open>request failed with status 502\<close>: the body is not part of it, and the error of
  \<open>json.Unmarshal\<close> is not what is returned. This holds for \<open>handleRawResponse\<close> and
  for every endpoint.
\<close>

theorem plaintext_502:
  assumes "request_of ext s op = Inr req" and "client_Do ext h s req = Inr resp"
    and "StatusCode resp = 502" and "Response.Body resp = ReadOK body"
    and "json_parse body = None"
  shows "handleRawResponse resp = Inl (Errorf ''request failed with status 502'')
       \<and> call ext unmarshal h s op = Inl (Errorf ''request failed with status 502'')
       \<and> Error (Errorf ''request failed with status 502'') = Some ''request failed with status 502''"
proof -
  have "unmarshal_ErrorResponse body = Inl SyntaxError"
    using assms(5) by (simp add: unmarshal_ErrorResponse_def Unmarshal_syntax)
  then have raw: "handleRawResponse resp = Inl (Errorf ''request failed with status 502'')"
    using assms(3,4) by (simp add: handleRawResponse_failure Sprintf_d_502)
  have "call ext unmarshal h s op = decode ext unmarshal op resp"
    using assms(1,2) by (rule call_response)
  with raw show ?thesis
    by (simp add: decode_failure Error_def)
qed

theorem plaintext_502_witness:
  "call (fixed_reply \<lparr>StatusCode = 502, Body = ReadOK ''Bad Gateway''\<rparr>) unmarshal_AsyncTranscript
      plain_heap plain_client OpMe
   = Inl (Errorf ''request failed with status 502'')"
proof -
  obtain req where
    "request_of (fixed_reply \<lparr>StatusCode = 502, Body = ReadOK ''Bad Gateway''\<rparr>) plain_client OpMe = Inr req"
    using Me_request_plain by blast
  then show ?thesis
    using plaintext_502[of "fixed_reply \<lparr>StatusCode = 502, Body = ReadOK ''Bad Gateway''\<rparr>"
        plain_client OpMe req plain_heap "\<lparr>StatusCode = 502, Body = ReadOK ''Bad Gateway''\<rparr>"
        "''Bad Gateway''" unmarshal_AsyncTranscript]
    by (simp add: plain_client_Do bad_gateway_syntax)
qed

lemma ErrorResponse_field_frame:
  assumes "ErrorResponse_field e0 m = Some e"
  shows "(\<not> field_match (fst m) ''error'' \<longrightarrow> ErrorIdentifier e = ErrorIdentifier e0)
       \<and> (\<not> field_match (fst m) ''message'' \<longrightarrow> Message e = Message e0)
       \<and> (\<not> field_match (fst m) ''details'' \<longrightarrow> Details e = Details e0)
       \<and> (\<not> field_match (fst m) ''documentationUrl'' \<longrightarrow> DocumentationUrl e = DocumentationUrl e0)"
  using assms by (cases m) (auto simp: ErrorResponse_field_def split: if_splits)

lemma store_members_ErrorResponse_frame:
  assumes "store_members ErrorResponse_field e0 ms = Some e"
  shows "((\<forall>m\<in>set ms. \<not> field_match (fst m) ''error'') \<longrightarrow> ErrorIdentifier e = ErrorIdentifier e0)
       \<and> ((\<forall>m\<in>set ms. \<not> field_match (fst m) ''message'') \<longrightarrow> Message e = Message e0)
       \<and> ((\<forall>m\<in>set ms. \<not> field_match (fst m) ''details'') \<longrightarrow> Details e = Details e0)
       \<and> ((\<forall>m\<in>set ms. \<not> field_match (fst m) ''documentationUrl'') \<longrightarrow> DocumentationUrl e = DocumentationUrl e0)"
  using assms
proof (induction ms arbitrary: e0)
  case Nil
  then show ?case by simp
next
  case (Cons m ms)
  from Cons.prems obtain e1 where m: "ErrorResponse_field e0 m = Some e1"
    and rest: "store_members ErrorResponse_field e1 ms = Some e"
    by (auto split: option.splits)
  from ErrorResponse_field_frame[OF m] Cons.IH[OF rest] show ?case
    by simp
qed

lemma store_members_error_unique:
  assumes "store_members ErrorResponse_field e0 ms = Some e"
    and "map snd (filter (\<lambda>m. field_match (fst m) ''error'') ms) = [JString i]"
  shows "ErrorIdentifier e = i"
  using assms
proof (induction ms arbitrary: e0)
  case Nil
  then show ?case by simp
next
  case (Cons m ms)
  from Cons.prems(1) obtain e1 where m: "ErrorResponse_field e0 m = Some e1"
    and rest: "store_members ErrorResponse_field e1 ms = Some e"
    by (auto split: option.splits)
  show ?case
  proof (cases "field_match (fst m) ''error''")
    case True
    with Cons.prems(2) have v: "snd m = JString i"
      and none: "\<forall>m\<in>set ms. \<not> field_match (fst m) ''error''"
      by (auto simp: filter_empty_conv)
    from m True v have "ErrorIdentifier e1 = i"
      by (cases m) (auto simp: ErrorResponse_field_def store_string_def)
    with store_members_ErrorResponse_frame[OF rest] none show ?thesis
      by simp
  next
    case False
    with Cons.prems(2) have "map snd (filter (\<lambda>m. field_match (fst m) ''error'') ms) = [JString i]"
      by simp
    with Cons.IH[OF rest] show ?thesis by simp
  qed
qed

lemma unmarshal_ErrorResponse_object:
  "json_parse body = Some (JObject ms) \<Longrightarrow>
   unmarshal_ErrorResponse body = Inr e \<longleftrightarrow> store_members ErrorResponse_field zero_ErrorResponse ms = Some e"
  by (auto simp: unmarshal_ErrorResponse_def Unmarshal_def store_struct_def split: option.splits)

lemma unmarshal_ErrorResponse_null:
  "json_parse body = Some JNull \<Longrightarrow> unmarshal_ErrorResponse body = Inr zero_ErrorResponse"
  by (simp add: unmarshal_ErrorResponse_def Unmarshal_def store_struct_def)

text \<open>
  The strings that the members of an object give for the field \<open>error\<close>, in the order of
  the members: those of the members whose key matches the field's name and whose value
  is a string.
\<close>

definition error_strings :: "(string \<times> json) list \<Rightarrow> string list" where
  "error_strings ms =
     concat (map (\<lambda>m. case snd m of JString i \<Rightarrow> [i] | _ \<Rightarrow> [])
                 (filter (\<lambda>m. field_match (fst m) ''error'') ms))"

lemma store_members_error_last:
  assumes "store_members ErrorResponse_field e0 ms = Some e"
  shows "ErrorIdentifier e = last (ErrorIdentifier e0 # error_strings ms)"
  using assms
proof (induction ms arbitrary: e0)
  case Nil
  then show ?case by (simp add: error_strings_def)
next
  case (Cons m ms)
  from Cons.prems obtain e1 where m: "ErrorResponse_field e0 m = Some e1"
    and rest: "store_members ErrorResponse_field e1 ms = Some e"
    by (auto split: option.splits)
  have e: "ErrorIdentifier e = last (ErrorIdentifier e1 # error_strings ms)"
    using rest by (rule Cons.IH)
  show ?case
  proof (cases "field_match (fst m) ''error''")
    case True
    with m have "(snd m = JNull \<and> ErrorIdentifier e1 = ErrorIdentifier e0)
               \<or> (\<exists>i. snd m = JString i \<and> ErrorIdentifier e1 = i)"
      by (cases m; cases "snd m") (auto simp: ErrorResponse_field_def store_string_def)
    with True e show ?thesis
      by (auto simp: error_strings_def)
  next
    case False
    with ErrorResponse_field_frame[OF m] have "ErrorIdentifier e1 = ErrorIdentifier e0"
      by simp
    with False e show ?thesis
      by (simp add: error_strings_def)
  qed
qed

lemma call_typed_error:
  assumes "request_of ext s op = Inr req" and "client_Do ext h s req = Inr resp"
    and "400 \<le> StatusCode resp" and "Response.Body resp = ReadOK body"
    and "unmarshal_ErrorResponse body = Inr e"
  shows "call ext unmarshal h s op = Inl (APIError e)"
proof -
  have "handleRawResponse resp = Inl (APIError e)"
    using assms(3,4,5) by (simp add: handleRawResponse_failure)
  then show ?thesis
    using assms(1,2) by (simp add: call_response decode_failure)
qed

lemma two_error_members:
  \<open>json_parse ''{"error":"not-found","ERROR":"forbidden"}''
     = Some (JObject [(''error'', JString ''not-found''), (''ERROR'', JString ''forbidden'')])\<close>
  \<open>unmarshal_ErrorResponse ''{"error":"not-found","ERROR":"forbidden"}''
     = Inr \<lparr>ErrorIdentifier = ''forbidden'', Message = [], Details = [], DocumentationUrl = []\<rparr>\<close>
  by code_simp+

text \<open>
  C2, as stated, fails: the body \<open>{"error":"not-found","ERROR":"forbidden"}\<close> decodes
  into an \<open>ErrorResponse\<close>, and its \<open>error\<close> field is \<open>not-found\<close>, one of the eight
  identifiers; but \<open>json.Unmarshal\<close> matches keys to fields without regard to case and
  stores the members in their order, so the member \<open>ERROR\<close> overwrites the identifier
  and the error returned at status 404 has the identifier \<open>forbidden\<close>.
\<close>

theorem later_error_member_wins:
  \<open>json_parse ''{"error":"not-found","ERROR":"forbidden"}''
     = Some (JObject [(''error'', JString ''not-found''), (''ERROR'', JString ''forbidden'')])
   \<and> call (fixed_reply \<lparr>StatusCode = 404, Body = ReadOK ''{"error":"not-found","ERROR":"forbidden"}''\<rparr>)
         unmarshal_AsyncTranscript plain_heap plain_client OpMe
       = Inl (APIError \<lparr>ErrorIdentifier = ''forbidden'', Message = [], Details = [],
                        DocumentationUrl = []\<rparr>)\<close>
proof -
  let ?resp = \<open>\<lparr>StatusCode = 404, Body = ReadOK ''{"error":"not-found","ERROR":"forbidden"}''\<rparr>\<close>
  obtain req where req: "request_of (fixed_reply ?resp) plain_client OpMe = Inr req"
    using Me_request_plain by blast
  have "call (fixed_reply ?resp) unmarshal_AsyncTranscript plain_heap plain_client OpMe
       = Inl (APIError \<lparr>ErrorIdentifier = ''forbidden'', Message = [], Details = [],
                        DocumentationUrl = []\<rparr>)"
    by (rule call_typed_error[OF req plain_client_Do _ _ two_error_members(2)]) simp_all
  with two_error_members(1) show ?thesis by simp
qed

text \<open>
  C2, amended. When an exchange completes with a status of 400 or more and the body
  decodes into an \<open>ErrorResponse\<close>, every endpoint returns that \<open>ErrorResponse\<close> as its
  error, never a result. When the body is an object, the identifier of the returned
  error is the string of the last member whose key matches \<open>error\<close>, compared without
  regard to case, and whose value is a string (the empty string when there is none);
  so when the body has one member for the field \<open>error\<close>, a string, the identifier is
  that string, whichever it is. The concrete instance runs through the eight
  identifiers the package defines.
\<close>

theorem typed_error_identifier:
  assumes "request_of ext s op = Inr req" and "client_Do ext h s req = Inr resp"
    and "400 \<le> StatusCode resp" and "Response.Body resp = ReadOK body"
    and "unmarshal_ErrorResponse body = Inr e"
  shows "call ext unmarshal h s op = Inl (APIError e)
       \<and> (\<forall>ms. json_parse body = Some (JObject ms) \<longrightarrow>
              ErrorIdentifier e = last ([] # error_strings ms))
       \<and> (\<forall>ms i. json_parse body = Some (JObject ms)
              \<and> map snd (filter (\<lambda>m. field_match (fst m) ''error'') ms) = [JString i]
            \<longrightarrow> ErrorIdentifier e = i)"
proof -
  have "call ext unmarshal h s op = Inl (APIError e)"
    using assms by (rule call_typed_error)
  moreover have "ErrorIdentifier e = last ([] # error_strings ms)"
    if "json_parse body = Some (JObject ms)" for ms
  proof -
    from that assms(5) have "store_members ErrorResponse_field zero_ErrorResponse ms = Some e"
      by (simp add: unmarshal_ErrorResponse_object)
    from store_members_error_last[OF this] show ?thesis
      by (simp add: zero_ErrorResponse_def)
  qed
  moreover have "ErrorIdentifier e = i"
    if "json_parse body = Some (JObject ms)"
      and "map snd (filter (\<lambda>m. field_match (fst m) ''error'') ms) = [JString i]" for ms i
  proof -
    from that(1) assms(5) have "store_members ErrorResponse_field zero_ErrorResponse ms = Some e"
      by (simp add: unmarshal_ErrorResponse_object)
    then show ?thesis using that(2) by (rule store_members_error_unique)
  qed
  ultimately show ?thesis by simp
qed

definition error_body :: "string \<Rightarrow> string" where
  \<open>error_body i = ''{"error":"'' @ i @ ''","message":"m"}''\<close>

lemma error_body_decodes:
  "list_all (\<lambda>i. unmarshal_ErrorResponse (error_body i)
       = Inr \<lparr>ErrorIdentifier = i, Message = ''m'', Details = [], DocumentationUrl = []\<rparr>)
     ErrorIdentifiers"
  unfolding ErrorIdentifiers_def InvalidRequest_def InternalError_def Forbidden_def Unauthorized_def
    UpgradeRequired_def TranscriptUnavailable_def NotFound_def LimitExceeded_def error_body_def
  by code_simp

theorem typed_error_identifier_witness:
  "list_all (\<lambda>i. call (fixed_reply \<lparr>StatusCode = 404, Body = ReadOK (error_body i)\<rparr>)
         unmarshal_AsyncTranscript plain_heap plain_client OpMe
       = Inl (APIError \<lparr>ErrorIdentifier = i, Message = ''m'', Details = [], DocumentationUrl = []\<rparr>))
     ErrorIdentifiers"
proof -
  have "call (fixed_reply \<lparr>StatusCode = 404, Body = ReadOK (error_body i)\<rparr>)
         unmarshal_AsyncTranscript plain_heap plain_client OpMe
       = Inl (APIError \<lparr>ErrorIdentifier = i, Message = ''m'', Details = [], DocumentationUrl = []\<rparr>)"
    if "unmarshal_ErrorResponse (error_body i)
       = Inr \<lparr>ErrorIdentifier = i, Message = ''m'', Details = [], DocumentationUrl = []\<rparr>" for i
  proof -
    obtain req where
      "request_of (fixed_reply \<lparr>StatusCode = 404, Body = ReadOK (error_body i)\<rparr>) plain_client OpMe = Inr req"
      using Me_request_plain by blast
    then show ?thesis
      using that typed_error_identifier[of "fixed_reply \<lparr>StatusCode = 404, Body = ReadOK (error_body i)\<rparr>"
          plain_client OpMe req plain_heap "\<lparr>StatusCode = 404, Body = ReadOK (error_body i)\<rparr>"
          "error_body i" "\<lparr>ErrorIdentifier = i, Message = ''m'', Details = [], DocumentationUrl = []\<rparr>"
          unmarshal_AsyncTranscript]
      by (simp add: plain_client_Do)
  qed
  with error_body_decodes show ?thesis
    by (simp add: ErrorIdentifiers_def)
qed

text \<open>
  C10. When an exchange completes with a status of 400 or more, the call returns the
  decoded \<open>ErrorResponse\<close> whenever \<open>json.Unmarshal\<close> into it succeeds, also when
  nothing was stored: for the body \<open>null\<close> it is the zero value, and for an object every
  field that no member names is the empty string. The error of \<open>fmt.Errorf\<close> is returned
  only when \<open>json.Unmarshal\<close> reports an error, and its message is
  \<open>request failed with status N\<close>.
\<close>

theorem empty_error_body:
  assumes "request_of ext s op = Inr req" and "client_Do ext h s req = Inr resp"
    and "400 \<le> StatusCode resp" and "Response.Body resp = ReadOK body"
  shows "(\<forall>e. unmarshal_ErrorResponse body = Inr e \<longrightarrow> call ext unmarshal h s op = Inl (APIError e))
       \<and> (\<forall>m. call ext unmarshal h s op = Inl (Errorf m) \<longrightarrow>
              (\<exists>err. unmarshal_ErrorResponse body = Inl err)
              \<and> m = ''request failed with status '' @ Sprintf_d (StatusCode resp))
       \<and> (json_parse body = Some JNull \<longrightarrow> unmarshal_ErrorResponse body = Inr zero_ErrorResponse)
       \<and> (\<forall>ms e. json_parse body = Some (JObject ms) \<and> unmarshal_ErrorResponse body = Inr e \<longrightarrow>
              ((\<forall>m\<in>set ms. \<not> field_match (fst m) ''error'') \<longrightarrow> ErrorIdentifier e = [])
            \<and> ((\<forall>m\<in>set ms. \<not> field_match (fst m) ''message'') \<longrightarrow> Message e = [])
            \<and> ((\<forall>m\<in>set ms. \<not> field_match (fst m) ''details'') \<longrightarrow> Details e = [])
            \<and> ((\<forall>m\<in>set ms. \<not> field_match (fst m) ''documentationUrl'') \<longrightarrow> DocumentationUrl e = []))"
proof -
  have c: "call ext unmarshal h s op = decode ext unmarshal op resp"
    using assms(1,2) by (rule call_response)
  have raw: "handleRawResponse resp =
     (case unmarshal_ErrorResponse body of
        Inl err \<Rightarrow> Inl (Errorf (''request failed with status '' @ Sprintf_d (StatusCode resp)))
      | Inr errResp \<Rightarrow> Inl (APIError errResp))"
    using assms(3,4) by (rule handleRawResponse_failure)
  have 1: "call ext unmarshal h s op = Inl (APIError e)" if "unmarshal_ErrorResponse body = Inr e" for e
    using that raw c by (simp add: decode_failure)
  have 2: "(\<exists>err. unmarshal_ErrorResponse body = Inl err)
        \<and> m = ''request failed with status '' @ Sprintf_d (StatusCode resp)"
    if "call ext unmarshal h s op = Inl (Errorf m)" for m
  proof (cases "unmarshal_ErrorResponse body")
    case (Inl err)
    with raw c that show ?thesis by (simp add: decode_failure)
  next
    case (Inr e)
    with 1 that show ?thesis by simp
  qed
  have 4: "((\<forall>m\<in>set ms. \<not> field_match (fst m) ''error'') \<longrightarrow> ErrorIdentifier e = [])
            \<and> ((\<forall>m\<in>set ms. \<not> field_match (fst m) ''message'') \<longrightarrow> Message e = [])
            \<and> ((\<forall>m\<in>set ms. \<not> field_match (fst m) ''details'') \<longrightarrow> Details e = [])
            \<and> ((\<forall>m\<in>set ms. \<not> field_match (fst m) ''documentationUrl'') \<longrightarrow> DocumentationUrl e = [])"
    if "json_parse body = Some (JObject ms)" and "unmarshal_ErrorResponse body = Inr e" for ms e
  proof -
    from that have "store_members ErrorResponse_field zero_ErrorResponse ms = Some e"
      by (simp add: unmarshal_ErrorResponse_object)
    from store_members_ErrorResponse_frame[OF this] show ?thesis
      by (simp add: zero_ErrorResponse_def)
  qed
  from 1 2 4 show ?thesis
    by (simp add: unmarshal_ErrorResponse_null)
qed


lemma empty_bodies_decode:
  "unmarshal_ErrorResponse ''{}'' = Inr zero_ErrorResponse"
  "unmarshal_ErrorResponse ''null'' = Inr zero_ErrorResponse"
  by code_simp+

theorem empty_error_body_witness:
  "call (fixed_reply \<lparr>StatusCode = 400, Body = ReadOK ''{}''\<rparr>) unmarshal_AsyncTranscript
      plain_heap plain_client OpMe = Inl (APIError zero_ErrorResponse)
   \<and> call (fixed_reply \<lparr>StatusCode = 500, Body = ReadOK ''null''\<rparr>) unmarshal_AsyncTranscript
      plain_heap plain_client OpMe = Inl (APIError zero_ErrorResponse)"
proof -
  obtain req where
    "request_of (fixed_reply \<lparr>StatusCode = 400, Body = ReadOK ''{}''\<rparr>) plain_client OpMe = Inr req"
    using Me_request_plain by blast
  then have 1: "call (fixed_reply \<lparr>StatusCode = 400, Body = ReadOK ''{}''\<rparr>) unmarshal_AsyncTranscript
      plain_heap plain_client OpMe = Inl (APIError zero_ErrorResponse)"
    using empty_error_body[of "fixed_reply \<lparr>StatusCode = 400, Body = ReadOK ''{}''\<rparr>"
        plain_client OpMe req plain_heap "\<lparr>StatusCode = 400, Body = ReadOK ''{}''\<rparr>" "''{}''"
        unmarshal_AsyncTranscript]
    by (simp add: plain_client_Do empty_bodies_decode)
  obtain req' where
    "request_of (fixed_reply \<lparr>StatusCode = 500, Body = ReadOK ''null''\<rparr>) plain_client OpMe = Inr req'"
    using Me_request_plain by blast
  then have 2: "call (fixed_reply \<lparr>StatusCode = 500, Body = ReadOK ''null''\<rparr>) unmarshal_AsyncTranscript
      plain_heap plain_client OpMe = Inl (APIError zero_ErrorResponse)"
    using empty_error_body[of "fixed_reply \<lparr>StatusCode = 500, Body = ReadOK ''null''\<rparr>"
        plain_client OpMe req' plain_heap "\<lparr>StatusCode = 500, Body = ReadOK ''null''\<rparr>" "''null''"
        unmarshal_AsyncTranscript]
    by (simp add: plain_client_Do empty_bodies_decode)
  from 1 2 show ?thesis by simp
qed

section \<open>Construction\<close>

text \<open>
  C9. Each option changes one thing and nothing else. \<open>WithAPIKey\<close> sets the key,
  \<open>WithBaseURL\<close> the base URL and \<open>WithClient\<close> the client pointer; the two other
  fields of the configuration and every client in the heap stay as they were.
  \<open>WithTimeout\<close> leaves the three fields of the configuration as they were and writes
  the timeout of the client the configuration points to: that client's other fields and
  all other clients stay as they were. It returns whenever the pointer is not nil.
\<close>

theorem option_frames:
  "(\<forall>c' h'. WithAPIKey k c h = Inr (c', h') \<longrightarrow>
      apiKey c' = k \<and> baseURL c' = baseURL c \<and> client c' = client c \<and> h' = h)
   \<and> (\<forall>c' h'. WithBaseURL u c h = Inr (c', h') \<longrightarrow>
      baseURL c' = u \<and> apiKey c' = apiKey c \<and> client c' = client c \<and> h' = h)
   \<and> (\<forall>c' h'. WithClient p c h = Inr (c', h') \<longrightarrow>
      client c' = p \<and> apiKey c' = apiKey c \<and> baseURL c' = baseURL c \<and> h' = h)
   \<and> (\<forall>c' h'. WithTimeout t c h = Inr (c', h') \<longrightarrow>
      c' = c \<and> length h' = length h
      \<and> (\<exists>a. client c = Some a \<and> a < length h
             \<and> h' ! a = (h ! a)\<lparr>Timeout := t\<rparr> \<and> Transport (h' ! a) = Transport (h ! a)
             \<and> (\<forall>b. b < length h \<and> b \<noteq> a \<longrightarrow> h' ! b = h ! b)))
   \<and> (\<exists>r. WithAPIKey k c h = Inr r) \<and> (\<exists>r. WithBaseURL u c h = Inr r)
   \<and> (\<exists>r. WithClient p c h = Inr r)
   \<and> (deref h (client c) \<noteq> None \<longrightarrow> (\<exists>r. WithTimeout t c h = Inr r))"
  by (auto simp: WithAPIKey_def WithBaseURL_def WithClient_def WithTimeout_def deref_def
      split: option.splits if_splits)

theorem option_frames_witness:
  "WithTimeout (30 * Second) (config plain_client) plain_heap
     = Inr (config plain_client, [\<lparr>Timeout = 30 * Second, Transport = DefaultTransport\<rparr>])
   \<and> WithAPIKey ''other'' (config plain_client) plain_heap
     = Inr (\<lparr>apiKey = ''other'', baseURL = BaseUrl, client = Some 0\<rparr>, plain_heap)"
proof -
  have t: "WithTimeout (30 * Second) (config plain_client) plain_heap
     = Inr (config plain_client, [\<lparr>Timeout = 30 * Second, Transport = DefaultTransport\<rparr>])"
    by (simp add: WithTimeout_def plain_client_def plain_heap_def)
  have k: "WithAPIKey ''other'' (config plain_client) plain_heap
     = Inr (\<lparr>apiKey = ''other'', baseURL = BaseUrl, client = Some 0\<rparr>, plain_heap)"
    by (simp add: WithAPIKey_def plain_client_def)
  from option_frames[of "''other''" "config plain_client" plain_heap BaseUrl None "30 * Second"] t k
  show ?thesis by simp
qed

text \<open>
  The options a caller can pass, by name: the package's four constructors are the only
  functions outside it that can write the configuration's fields. \<open>options\<close> is the
  argument list of \<open>NewSupadata\<close> for a list of such calls.
\<close>

datatype option_call =
    CallWithAPIKey string
  | CallWithTimeout int
  | CallWithClient "nat option"
  | CallWithBaseURL string

fun option_of :: "option_call \<Rightarrow> ConfigOption" where
  "option_of (CallWithAPIKey k) = WithAPIKey k"
| "option_of (CallWithTimeout t) = WithTimeout t"
| "option_of (CallWithClient p) = WithClient p"
| "option_of (CallWithBaseURL u) = WithBaseURL u"

definition options :: "option_call list \<Rightarrow> ConfigOption option list" where
  "options calls = map (\<lambda>call. Some (option_of call)) calls"

fun api_keys :: "option_call list \<Rightarrow> string list" where
  "api_keys [] = []"
| "api_keys (CallWithAPIKey k # calls) = k # api_keys calls"
| "api_keys (_ # calls) = api_keys calls"

fun valid_client :: "heap \<Rightarrow> option_call \<Rightarrow> bool" where
  "valid_client h (CallWithClient p) = (case p of None \<Rightarrow> False | Some a \<Rightarrow> a < length h)"
| "valid_client h _ = True"

lemma apply_opts_apiKey:
  "apply_opts (options calls) c h = Inr (c', h') \<Longrightarrow>
   apiKey c' = (if api_keys calls = [] then apiKey c else last (api_keys calls))"
proof (induction calls arbitrary: c h)
  case Nil
  then show ?case by (simp add: options_def)
next
  case (Cons call calls)
  from Cons.prems obtain c1 h1 where step: "option_of call c h = Inr (c1, h1)"
    and rest: "apply_opts (options calls) c1 h1 = Inr (c', h')"
    by (auto simp: options_def split: sum.splits)
  from step have "apiKey c1 = (case call of CallWithAPIKey k \<Rightarrow> k | _ \<Rightarrow> apiKey c)"
    by (cases call)
      (auto simp: WithAPIKey_def WithBaseURL_def WithClient_def WithTimeout_def
        split: option.splits if_splits)
  with Cons.IH[OF rest] show ?case
    by (cases call) simp_all
qed

lemma apply_opts_returns:
  "list_all (valid_client h) calls \<Longrightarrow> deref h (client c) \<noteq> None \<Longrightarrow>
   \<exists>c' h'. apply_opts (options calls) c h = Inr (c', h')"
proof (induction calls arbitrary: c h)
  case Nil
  then show ?case by (simp add: options_def)
next
  case (Cons call calls)
  have "\<exists>c1 h1. option_of call c h = Inr (c1, h1) \<and> length h1 = length h \<and> deref h1 (client c1) \<noteq> None"
    using Cons.prems
    by (cases call)
      (auto simp: WithAPIKey_def WithBaseURL_def WithClient_def WithTimeout_def deref_def
        split: option.splits if_splits)
  then obtain c1 h1 where step: "option_of call c h = Inr (c1, h1)"
    and len: "length h1 = length h" and ok: "deref h1 (client c1) \<noteq> None"
    by blast
  have "valid_client h1 = valid_client h"
  proof
    fix x show "valid_client h1 x = valid_client h x"
      using len by (cases x) (simp_all split: option.splits)
  qed
  with Cons.prems have "list_all (valid_client h1) calls" by simp
  from Cons.IH[OF this ok] step show ?case by (simp add: options_def)
qed

text \<open>
  C5. When \<open>NewSupadata\<close> returns, the key of the configuration is the argument of the
  last \<open>WithAPIKey\<close> among the options, wherever the other options stand, and the value
  of \<open>SUPADATA_API_KEY\<close> in the environment (empty when it is not set) when there is
  no \<open>WithAPIKey\<close>. It returns whenever no \<open>WithClient\<close> passes a nil pointer (a
  \<open>WithTimeout\<close> after one would panic).
\<close>

theorem NewSupadata_apiKey:
  "(\<forall>s h'. NewSupadata env h (options calls) = Inr (s, h') \<longrightarrow>
      apiKey (config s) =
        (if api_keys calls = [] then Getenv env ''SUPADATA_API_KEY'' else last (api_keys calls)))
   \<and> (list_all (valid_client h) calls \<longrightarrow>
        (\<exists>s h'. NewSupadata env h (options calls) = Inr (s, h')))"
proof (intro conjI allI impI)
  fix s h'
  assume "NewSupadata env h (options calls) = Inr (s, h')"
  then show "apiKey (config s) =
        (if api_keys calls = [] then Getenv env ''SUPADATA_API_KEY'' else last (api_keys calls))"
    by (auto simp: NewSupadata_def Let_def split: sum.splits dest!: apply_opts_apiKey)
next
  let ?h1 = "h @ [\<lparr>Timeout = 60 * Second, Transport = DefaultTransport\<rparr>]"
  let ?c = "\<lparr>apiKey = Getenv env ''SUPADATA_API_KEY'', baseURL = BaseUrl, client = Some (length h)\<rparr>"
  assume "list_all (valid_client h) calls"
  then have "list_all (valid_client ?h1) calls"
    by (induction calls) (auto elim: valid_client.elims split: option.splits)
  moreover have "deref ?h1 (client ?c) \<noteq> None"
    by (simp add: deref_def)
  ultimately obtain c' h' where "apply_opts (options calls) ?c ?h1 = Inr (c', h')"
    using apply_opts_returns by blast
  then show "\<exists>s h'. NewSupadata env h (options calls) = Inr (s, h')"
    by (simp add: NewSupadata_def Let_def)
qed

theorem NewSupadata_apiKey_witness:
  "(\<exists>s h'. NewSupadata [''SUPADATA_API_KEY'' \<mapsto> ''from-env''] []
        (options [CallWithAPIKey ''first'', CallWithTimeout (30 * Second), CallWithAPIKey ''second'',
                  CallWithBaseURL ''http://localhost'']) = Inr (s, h')
      \<and> apiKey (config s) = ''second'')
   \<and> (\<exists>s h'. NewSupadata [''SUPADATA_API_KEY'' \<mapsto> ''from-env''] []
        (options [CallWithTimeout (30 * Second), CallWithBaseURL ''http://localhost'']) = Inr (s, h')
      \<and> apiKey (config s) = ''from-env'')"
  using
    NewSupadata_apiKey[of "[''SUPADATA_API_KEY'' \<mapsto> ''from-env'']" "[]"
      "[CallWithAPIKey ''first'', CallWithTimeout (30 * Second), CallWithAPIKey ''second'',
        CallWithBaseURL ''http://localhost'']"]
    NewSupadata_apiKey[of "[''SUPADATA_API_KEY'' \<mapsto> ''from-env'']" "[]"
      "[CallWithTimeout (30 * Second), CallWithBaseURL ''http://localhost'']"]
  by (auto simp: Getenv_def)

section \<open>Requests\<close>

lemma canonical_keys:
  "CanonicalMIMEHeaderKey ''User-Agent'' = ''User-Agent''"
  "CanonicalMIMEHeaderKey ''x-api-key'' = ''X-Api-Key''"
  "CanonicalMIMEHeaderKey ''Content-Type'' = ''Content-Type''"
  by code_simp+

lemma prepareRequest_headers:
  assumes "prepareRequest ext s method endpoint body = Inr req"
  shows "Header req ''User-Agent'' = Some [''supadata-go/1.0.0'']
       \<and> Header req ''X-Api-Key'' = Some [apiKey (config s)]"
  using assms
  by (auto simp: prepareRequest_def setDefaultHeaders_def Header_Set_def canonical_keys Let_def
      split: sum.splits)

lemma set_RawQuery_Header [simp]: "Header (set_RawQuery req q) = Header req"
  by (simp add: set_RawQuery_def)

lemma request_of_headers:
  assumes "request_of ext s op = Inr req"
  shows "Header req ''User-Agent'' = Some [''supadata-go/1.0.0'']
       \<and> Header req ''X-Api-Key'' = Some [apiKey (config s)]"
proof (cases op)
  case (OpTranscript a)
  with assms show ?thesis
    by (auto simp: Transcript_request_def Let_def split: sum.splits dest!: prepareRequest_headers)
next
  case (OpTranscriptResult a)
  with assms show ?thesis
    by (auto simp: TranscriptResult_request_def dest!: prepareRequest_headers)
next
  case (OpMetadata a)
  with assms show ?thesis
    by (auto simp: Metadata_request_def Let_def split: sum.splits dest!: prepareRequest_headers)
next
  case OpMe
  with assms show ?thesis
    by (auto simp: Me_request_def dest!: prepareRequest_headers)
next
  case (OpScrape a)
  with assms show ?thesis
    by (auto simp: Scrape_request_def Let_def split: sum.splits dest!: prepareRequest_headers)
next
  case (OpMap a)
  with assms show ?thesis
    by (auto simp: Map_request_def Let_def split: sum.splits dest!: prepareRequest_headers)
next
  case (OpCrawl a)
  with assms show ?thesis
    by (auto simp: Crawl_request_def Let_def Header_Set_def canonical_keys
        split: sum.splits dest!: prepareRequest_headers)
next
  case (OpCrawlResult a b)
  with assms show ?thesis
    by (auto simp: CrawlResult_request_def Let_def split: sum.splits if_splits dest!: prepareRequest_headers)
next
  case (OpYouTubeSearch a)
  with assms show ?thesis
    by (auto simp: YouTubeSearch_request_def Let_def split: sum.splits dest!: prepareRequest_headers)
next
  case (OpYouTubeVideo a)
  with assms show ?thesis
    by (auto simp: YouTubeVideo_request_def Let_def split: sum.splits dest!: prepareRequest_headers)
next
  case (OpYouTubeVideoBatch a)
  with assms show ?thesis
    by (auto simp: YouTubeVideoBatch_request_def Let_def Header_Set_def canonical_keys
        split: sum.splits dest!: prepareRequest_headers)
next
  case (OpYouTubeTranscript a)
  with assms show ?thesis
    by (auto simp: YouTubeTranscript_request_def Let_def split: sum.splits dest!: prepareRequest_headers)
next
  case (OpYouTubeTranscriptBatch a)
  with assms show ?thesis
    by (auto simp: YouTubeTranscriptBatch_request_def Let_def Header_Set_def canonical_keys
        split: sum.splits dest!: prepareRequest_headers)
next
  case (OpYouTubeTranscriptTranslate a)
  with assms show ?thesis
    by (auto simp: YouTubeTranscriptTranslate_request_def Let_def split: sum.splits dest!: prepareRequest_headers)
next
  case (OpYouTubeChannel a)
  with assms show ?thesis
    by (auto simp: YouTubeChannel_request_def Let_def split: sum.splits dest!: prepareRequest_headers)
next
  case (OpYouTubePlaylist a)
  with assms show ?thesis
    by (auto simp: YouTubePlaylist_request_def Let_def split: sum.splits dest!: prepareRequest_headers)
next
  case (OpYouTubeChannelVideos a)
  with assms show ?thesis
    by (auto simp: YouTubeChannelVideos_request_def Let_def split: sum.splits dest!: prepareRequest_headers)
next
  case (OpYouTubePlaylistVideos a)
  with assms show ?thesis
    by (auto simp: YouTubePlaylistVideos_request_def Let_def split: sum.splits dest!: prepareRequest_headers)
next
  case (OpYouTubeBatchResult a)
  with assms show ?thesis
    by (auto simp: YouTubeBatchResult_request_def dest!: prepareRequest_headers)
qed

text \<open>
  C6. The request of every endpoint, for every argument, carries the header
  \<open>User-Agent\<close> with the value \<open>supadata-go/1.0.0\<close> and the header \<open>x-api-key\<close> with the
  configured key, each with exactly that one value (\<open>http.Header\<close> keeps them under
  their canonical keys, and \<open>Get\<close> finds them under the names the code uses).
\<close>

theorem default_headers:
  assumes "request_of ext s op = Inr req"
  shows "Header_Get (Header req) ''User-Agent'' = ''supadata-go/1.0.0''
       \<and> Header_Get (Header req) ''x-api-key'' = apiKey (config s)
       \<and> Header req (CanonicalMIMEHeaderKey ''User-Agent'') = Some [''supadata-go/1.0.0'']
       \<and> Header req (CanonicalMIMEHeaderKey ''x-api-key'') = Some [apiKey (config s)]"
  using request_of_headers[OF assms] by (simp add: Header_Get_def canonical_keys)

theorem default_headers_witness:
  "\<exists>req. request_of (fixed_reply \<lparr>StatusCode = 200, Body = ReadOK ''{}''\<rparr>) plain_client
            (OpCrawl \<lparr>CrawlBody.Url = ''https://example.com'', CrawlBody.Limit = 10\<rparr>) = Inr req
      \<and> Header_Get (Header req) ''User-Agent'' = ''supadata-go/1.0.0''
      \<and> Header_Get (Header req) ''x-api-key'' = ''key''
      \<and> Header_Get (Header req) ''Content-Type'' = ''application/json''"
proof -
  obtain req where req: "request_of (fixed_reply \<lparr>StatusCode = 200, Body = ReadOK ''{}''\<rparr>) plain_client
            (OpCrawl \<lparr>CrawlBody.Url = ''https://example.com'', CrawlBody.Limit = 10\<rparr>) = Inr req"
    by (simp add: Crawl_request_def prepareRequest_def http_NewRequest_def fixed_reply_def
        url_Parse_def Let_def)
  then have "Header_Get (Header req) ''Content-Type'' = ''application/json''"
    by (auto simp: Crawl_request_def Let_def Header_Get_def Header_Set_def canonical_keys
        split: sum.splits)
  with req default_headers[OF req] show ?thesis
    by (simp add: plain_client_def)
qed

section \<open>The two shapes of a transcript\<close>

lemma store_RawMap_keys:
  "dom (fold (\<lambda>(k, x) m. m(k \<mapsto> x)) ms m0) = dom m0 \<union> fst ` set ms"
  by (induction ms arbitrary: m0) (auto split: prod.splits)

lemma unmarshal_RawMap_object:
  assumes "json_parse body = Some (JObject ms)"
  shows "\<exists>raw. unmarshal_RawMap body = Inr raw \<and> (raw ''jobId'' \<noteq> None \<longleftrightarrow> ''jobId'' \<in> fst ` set ms)"
proof -
  let ?raw = "fold (\<lambda>(k, x) m. m(k \<mapsto> x)) ms Map.empty"
  have "unmarshal_RawMap body = Inr ?raw"
    using assms by (simp add: unmarshal_RawMap_def Unmarshal_def store_RawMap_def)
  moreover have "?raw ''jobId'' \<noteq> None \<longleftrightarrow> ''jobId'' \<in> fst ` set ms"
    using store_RawMap_keys[of ms Map.empty] by (auto simp: dom_def)
  ultimately show ?thesis by blast
qed

lemma handleRawResponse_success:
  "StatusCode resp < 400 \<Longrightarrow> Response.Body resp = ReadOK body \<Longrightarrow> handleRawResponse resp = Inr body"
  by (simp add: handleRawResponse_def)

definition video_params :: TranscriptParams where
  "video_params =
     \<lparr>TranscriptParams.Url = ''https://www.youtube.com/watch?v=dQw4w9WgXcQ'', TranscriptParams.Lang = [],
      TranscriptParams.Text = False, TranscriptParams.ChunkSize = 0, Mode = []\<rparr>"

lemma Transcript_request_plain:
  "\<exists>req. Transcript_request (fixed_reply resp) plain_client params = Inr req"
  by (simp add: Transcript_request_def prepareRequest_def http_NewRequest_def fixed_reply_def
      url_Parse_def Let_def)

lemma Transcript_plain:
  "Transcript (fixed_reply resp) plain_heap plain_client params = Transcript_decode (fixed_reply resp) resp"
  using Transcript_request_plain[of resp params]
  by (auto simp: Transcript_def plain_client_Do)

lemma Transcript_decode_object:
  assumes "StatusCode resp < 400" and "Response.Body resp = ReadOK body"
    and "json_parse body = Some (JObject ms)"
  shows "Transcript_decode ext resp =
      (if ''jobId'' \<in> fst ` set ms then
         (case unmarshal_AsyncTranscript body of
            Inl err \<Rightarrow> Inl (JSONError err)
          | Inr async \<Rightarrow> Inr \<lparr>Sync = None, Async = Some async\<rparr>)
       else
         (case unmarshal_SyncTranscript (float_ok ext) body of
            Inl err \<Rightarrow> Inl (JSONError err)
          | Inr sync \<Rightarrow> Inr \<lparr>Sync = Some sync, Async = None\<rparr>))"
proof -
  obtain raw where raw: "unmarshal_RawMap body = Inr raw"
    and key: "raw ''jobId'' \<noteq> None \<longleftrightarrow> ''jobId'' \<in> fst ` set ms"
    using unmarshal_RawMap_object[OF assms(3)] by blast
  then show ?thesis
    by (simp add: Transcript_decode_def handleRawResponse_success[OF assms(1,2)])
qed

lemma job_number_body:
  \<open>json_parse ''{"jobId":5}'' = Some (JObject [(''jobId'', JNumber ''5'')])\<close>
  \<open>unmarshal_AsyncTranscript ''{"jobId":5}'' = Inl UnmarshalTypeError\<close>
  by code_simp+

text \<open>
  C1, as stated, fails: the body \<open>{"jobId":5}\<close> is a valid JSON object with the key
  \<open>jobId\<close> and the status is 200, but \<open>json.Unmarshal\<close> cannot store the number into
  the string \<open>JobId\<close>, and \<open>Transcript\<close> returns that error and no transcript at all.
\<close>

theorem job_number_no_transcript:
  \<open>StatusCode \<lparr>StatusCode = 200, Body = ReadOK ''{"jobId":5}''\<rparr> < 400
   \<and> json_parse ''{"jobId":5}'' = Some (JObject [(''jobId'', JNumber ''5'')])
   \<and> Transcript (fixed_reply \<lparr>StatusCode = 200, Body = ReadOK ''{"jobId":5}''\<rparr>) plain_heap plain_client
        video_params = Inl (JSONError UnmarshalTypeError)\<close>
proof -
  let ?resp = \<open>\<lparr>StatusCode = 200, Body = ReadOK ''{"jobId":5}''\<rparr>\<close>
  have "Transcript_decode (fixed_reply ?resp) ?resp = Inl (JSONError UnmarshalTypeError)"
    using Transcript_decode_object[of ?resp _ _ "fixed_reply ?resp", OF _ _ job_number_body(1)]
    by (simp add: job_number_body(2))
  then show ?thesis
    by (simp add: Transcript_plain job_number_body(1))
qed

lemma Transcript_one_variant:
  "Transcript ext h s params = Inr t \<Longrightarrow> (Sync t = None \<longleftrightarrow> Async t \<noteq> None)"
  by (auto simp: Transcript_def Transcript_decode_def split: sum.splits if_splits)

text \<open>
  C1, amended. A transcript that \<open>Transcript\<close> returns, whatever the exchange was, has
  exactly one of \<open>Sync\<close> and \<open>Async\<close> set: never both and never neither. When the
  exchange completes with a status below 400 and the body is a valid JSON object,
  \<open>Transcript\<close> decodes the body as an \<open>AsyncTranscript\<close> if the object has a key \<open>jobId\<close>
  and as a \<open>SyncTranscript\<close> otherwise. When that decoding succeeds the returned
  transcript has the decoded value in \<open>Async\<close> and nil in \<open>Sync\<close>, or the other way
  round; when it fails the call returns the decoding error.
\<close>

theorem Transcript_variant:
  "(\<forall>t. Transcript ext h s params = Inr t \<longrightarrow> (Sync t = None \<longleftrightarrow> Async t \<noteq> None))
   \<and> (\<forall>req resp body ms.
        Transcript_request ext s params = Inr req \<and> client_Do ext h s req = Inr resp
        \<and> StatusCode resp < 400 \<and> Response.Body resp = ReadOK body
        \<and> json_parse body = Some (JObject ms) \<longrightarrow>
          (''jobId'' \<in> fst ` set ms \<longrightarrow>
             Transcript ext h s params =
               (case unmarshal_AsyncTranscript body of
                  Inl err \<Rightarrow> Inl (JSONError err)
                | Inr async \<Rightarrow> Inr \<lparr>Sync = None, Async = Some async\<rparr>))
        \<and> (''jobId'' \<notin> fst ` set ms \<longrightarrow>
             Transcript ext h s params =
               (case unmarshal_SyncTranscript (float_ok ext) body of
                  Inl err \<Rightarrow> Inl (JSONError err)
                | Inr sync \<Rightarrow> Inr \<lparr>Sync = Some sync, Async = None\<rparr>))
        \<and> (\<forall>t. Transcript ext h s params = Inr t \<longrightarrow>
               (IsAsync t \<longleftrightarrow> ''jobId'' \<in> fst ` set ms)))"
proof (intro conjI allI impI)
  fix t
  assume "Transcript ext h s params = Inr t"
  then show "Sync t = None \<longleftrightarrow> Async t \<noteq> None"
    by (rule Transcript_one_variant)
next
  fix req resp body ms
  assume a: "Transcript_request ext s params = Inr req \<and> client_Do ext h s req = Inr resp
        \<and> StatusCode resp < 400 \<and> Response.Body resp = ReadOK body
        \<and> json_parse body = Some (JObject ms)"
  then have t: "Transcript ext h s params = Transcript_decode ext resp"
    by (simp add: Transcript_def)
  from a have d: "StatusCode resp < 400" "Response.Body resp = ReadOK body"
    "json_parse body = Some (JObject ms)"
    by simp_all
  note o = Transcript_decode_object[OF d]
  {
    assume "''jobId'' \<in> fst ` set ms"
    then show "Transcript ext h s params =
               (case unmarshal_AsyncTranscript body of
                  Inl err \<Rightarrow> Inl (JSONError err)
                | Inr async \<Rightarrow> Inr \<lparr>Sync = None, Async = Some async\<rparr>)"
      unfolding t o by simp
  next
    assume "''jobId'' \<notin> fst ` set ms"
    then show "Transcript ext h s params =
               (case unmarshal_SyncTranscript (float_ok ext) body of
                  Inl err \<Rightarrow> Inl (JSONError err)
                | Inr sync \<Rightarrow> Inr \<lparr>Sync = Some sync, Async = None\<rparr>)"
      unfolding t o by simp
  next
    fix t'
    assume "Transcript ext h s params = Inr t'"
    then show "IsAsync t' \<longleftrightarrow> ''jobId'' \<in> fst ` set ms"
      unfolding t o by (auto simp: IsAsync_def split: sum.splits if_splits)
  }
qed

lemma transcript_bodies:
  \<open>json_parse ''{"jobId":"job-abc-123"}'' = Some (JObject [(''jobId'', JString ''job-abc-123'')])\<close>
  \<open>unmarshal_AsyncTranscript ''{"jobId":"job-abc-123"}'' = Inr \<lparr>JobId = ''job-abc-123''\<rparr>\<close>
  \<open>json_parse ''{"content":[{"text":"Hello world","offset":0.0,"duration":1000}],"lang":"en","availableLangs":["en","es","fr"]}''
     = Some (JObject
         [(''content'', JArray [JObject [(''text'', JString ''Hello world''), (''offset'', JNumber ''0.0''),
                                        (''duration'', JNumber ''1000'')]]),
          (''lang'', JString ''en''),
          (''availableLangs'', JArray [JString ''en'', JString ''es'', JString ''fr''])])\<close>
  \<open>unmarshal_SyncTranscript (\<lambda>lit. True)
       ''{"content":[{"text":"Hello world","offset":0.0,"duration":1000}],"lang":"en","availableLangs":["en","es","fr"]}''
     = Inr \<lparr>Content = Slice [\<lparr>TranscriptContent.Text = ''Hello world'', Offset = Float64 ''0.0'',
                                TranscriptContent.Duration = Float64 ''1000'',
                                TranscriptContent.Lang = []\<rparr>] [],
            SyncTranscript.Lang = ''en'', AvailableLangs = Slice [''en'', ''es'', ''fr''] []\<rparr>\<close>
  by code_simp+

theorem Transcript_variant_witness:
  \<open>Transcript (fixed_reply \<lparr>StatusCode = 200, Body = ReadOK ''{"jobId":"job-abc-123"}''\<rparr>)
      plain_heap plain_client video_params
     = Inr \<lparr>Sync = None, Async = Some \<lparr>JobId = ''job-abc-123''\<rparr>\<rparr>
   \<and> Transcript (fixed_reply \<lparr>StatusCode = 200, Body = ReadOK
        ''{"content":[{"text":"Hello world","offset":0.0,"duration":1000}],"lang":"en","availableLangs":["en","es","fr"]}''\<rparr>)
      plain_heap plain_client video_params
     = Inr \<lparr>Sync = Some \<lparr>Content = Slice [\<lparr>TranscriptContent.Text = ''Hello world'', Offset = Float64 ''0.0'',
                                              TranscriptContent.Duration = Float64 ''1000'',
                                              TranscriptContent.Lang = []\<rparr>] [],
                          SyncTranscript.Lang = ''en'', AvailableLangs = Slice [''en'', ''es'', ''fr''] []\<rparr>,
            Async = None\<rparr>\<close>
proof -
  let ?ja = \<open>''{"jobId":"job-abc-123"}''\<close>
  let ?jb = \<open>''{"content":[{"text":"Hello world","offset":0.0,"duration":1000}],"lang":"en","availableLangs":["en","es","fr"]}''\<close>
  let ?a = "\<lparr>StatusCode = 200, Body = ReadOK ?ja\<rparr>"
  let ?b = "\<lparr>StatusCode = 200, Body = ReadOK ?jb\<rparr>"
  obtain ra where ra: "Transcript_request (fixed_reply ?a) plain_client video_params = Inr ra"
    using Transcript_request_plain by blast
  obtain rb where rb: "Transcript_request (fixed_reply ?b) plain_client video_params = Inr rb"
    using Transcript_request_plain by blast
  have fo: "float_ok (fixed_reply r) = (\<lambda>lit. True)" for r
    by (simp add: fixed_reply_def)
  have pa: "Transcript_request (fixed_reply ?a) plain_client video_params = Inr ra
      \<and> client_Do (fixed_reply ?a) plain_heap plain_client ra = Inr ?a
      \<and> StatusCode ?a < 400 \<and> Response.Body ?a = ReadOK ?ja
      \<and> json_parse ?ja = Some (JObject [(''jobId'', JString ''job-abc-123'')])"
    using ra by (simp add: plain_client_Do transcript_bodies(1))
  have pb: "Transcript_request (fixed_reply ?b) plain_client video_params = Inr rb
      \<and> client_Do (fixed_reply ?b) plain_heap plain_client rb = Inr ?b
      \<and> StatusCode ?b < 400 \<and> Response.Body ?b = ReadOK ?jb
      \<and> json_parse ?jb = Some (JObject
         [(''content'', JArray [JObject [(''text'', JString ''Hello world''), (''offset'', JNumber ''0.0''),
                                        (''duration'', JNumber ''1000'')]]),
          (''lang'', JString ''en''),
          (''availableLangs'', JArray [JString ''en'', JString ''es'', JString ''fr''])])"
    using rb by (simp add: plain_client_Do transcript_bodies(3))
  from Transcript_variant[of "fixed_reply ?a" plain_heap plain_client video_params,
      THEN conjunct2, rule_format, OF pa]
  have 1: "Transcript (fixed_reply ?a) plain_heap plain_client video_params
     = Inr \<lparr>Sync = None, Async = Some \<lparr>JobId = ''job-abc-123''\<rparr>\<rparr>"
    by (simp add: transcript_bodies(2))
  from Transcript_variant[of "fixed_reply ?b" plain_heap plain_client video_params,
      THEN conjunct2, rule_format, OF pb]
  have 2: "Transcript (fixed_reply ?b) plain_heap plain_client video_params
     = Inr \<lparr>Sync = Some \<lparr>Content = Slice [\<lparr>TranscriptContent.Text = ''Hello world'', Offset = Float64 ''0.0'',
                                              TranscriptContent.Duration = Float64 ''1000'',
                                              TranscriptContent.Lang = []\<rparr>] [],
                          SyncTranscript.Lang = ''en'', AvailableLangs = Slice [''en'', ''es'', ''fr''] []\<rparr>,
            Async = None\<rparr>"
    by (simp add: transcript_bodies(4) fo)
  from 1 2 show ?thesis by simp
qed

text \<open>
  Two bodies outside the objects above. The body \<open>null\<close> at status 200 has no key
  \<open>jobId\<close> and stores nothing: the transcript returned is the synchronous one with the
  zero value. And a slice keeps its backing array between two members for the same
  field: the third member here stores \<open>null\<close> twice, which leaves both positions as
  the first member wrote them.
\<close>

lemma Transcript_null_body:
  "Transcript (fixed_reply \<lparr>StatusCode = 200, Body = ReadOK ''null''\<rparr>)
      plain_heap plain_client video_params
     = Inr \<lparr>Sync = Some zero_SyncTranscript, Async = None\<rparr>"
proof -
  have "unmarshal_SyncTranscript (\<lambda>lit. True) ''null'' = Inr zero_SyncTranscript"
    "json_parse ''null'' = Some JNull"
    by code_simp+
  then have "Transcript_decode (fixed_reply r) \<lparr>StatusCode = 200, Body = ReadOK ''null''\<rparr>
     = Inr \<lparr>Sync = Some zero_SyncTranscript, Async = None\<rparr>" for r
    by (simp add: Transcript_decode_def handleRawResponse_success
        unmarshal_RawMap_def Unmarshal_def store_RawMap_def fixed_reply_def)
  then show ?thesis
    by (simp only: Transcript_plain)
qed

lemma regrown_slice:
  \<open>unmarshal_SyncTranscript (\<lambda>lit. True)
       ''{"availableLangs":["a","b"],"availableLangs":["c"],"availableLangs":[null,null]}''
     = Inr \<lparr>Content = Slice [] [], SyncTranscript.Lang = [],
            AvailableLangs = Slice [''c'', ''b''] []\<rparr>\<close>
  by code_simp


section \<open>Encoding a query and reading it back\<close>

text \<open>
  \<open>URL.Query\<close> applied to what \<open>Values.Encode\<close> wrote gives every key its values back, in
  their order: an escaped key or value has no \<open>&\<close>, \<open>;\<close> or \<open>=\<close> in it, and unescaping
  undoes escaping.
\<close>

lemma byte_range: "0 \<le> byte c \<and> byte c < 256"
proof -
  have "byte c = byte c mod 256" by (simp add: byte_def)
  moreover have "0 \<le> byte c mod 256 \<and> byte c mod 256 < 256" by simp
  ultimately show ?thesis by simp
qed
lemma char_of_byte: "char_of (byte c) = c"
  by (simp add: byte_def)

lemma upperhex_table:
  "list_all (\<lambda>n. ishex (upperhex n) \<and> unhex (upperhex n) = n
       \<and> upperhex n \<noteq> CHR ''&'' \<and> upperhex n \<noteq> CHR '';'' \<and> upperhex n \<noteq> CHR ''='')
     [0, 1, 2, 3, 4, 5, 6, 7, 8, 9, 10, 11, 12, 13, 14, 15]"
  by code_simp

lemma upperhex_ok:
  assumes "0 \<le> n" and "n < 16"
  shows "ishex (upperhex n) \<and> unhex (upperhex n) = n
       \<and> upperhex n \<noteq> CHR ''&'' \<and> upperhex n \<noteq> CHR '';'' \<and> upperhex n \<noteq> CHR ''=''"
proof -
  from assms have "n \<in> set [0, 1, 2, 3, 4, 5, 6, 7, 8, 9, 10, 11, 12, 13, 14, 15]"
    by (simp only: list.set insert_iff empty_iff) arith
  with upperhex_table show ?thesis
    unfolding list_all_iff by blast
qed

lemma reserved_escaped:
  "shouldEscape (CHR ''&'')" "shouldEscape (CHR '';'')" "shouldEscape (CHR ''='')"
  "shouldEscape (CHR ''%'')" "shouldEscape (CHR ''+'')"
  by code_simp+

lemma escape_byte_clean:
  "c' \<in> set (escape_byte c) \<Longrightarrow> c' \<noteq> CHR ''&'' \<and> c' \<noteq> CHR '';'' \<and> c' \<noteq> CHR ''=''"
proof -
  have d: "0 \<le> byte c div 16" "byte c div 16 < 16" "0 \<le> byte c mod 16" "byte c mod 16 < 16"
    using byte_range[of c] by auto
  assume "c' \<in> set (escape_byte c)"
  then show ?thesis
    using upperhex_ok[OF d(1,2)] upperhex_ok[OF d(3,4)] reserved_escaped
    by (auto simp: escape_byte_def split: if_splits)
qed

lemma QueryEscape_clean:
  "CHR ''&'' \<notin> set (QueryEscape s)" "CHR '';'' \<notin> set (QueryEscape s)" "CHR ''='' \<notin> set (QueryEscape s)"
  using escape_byte_clean by (auto simp: QueryEscape_def)

lemma QueryUnescape_escape_byte:
  "QueryUnescape (escape_byte c @ r) = (case QueryUnescape r of None \<Rightarrow> None | Some r' \<Rightarrow> Some (c # r'))"
proof -
  have d: "0 \<le> byte c div 16" "byte c div 16 < 16" "0 \<le> byte c mod 16" "byte c mod 16 < 16"
    using byte_range[of c] by auto
  have inv: "char_of (byte c div 16 * 16 + byte c mod 16) = c"
    using char_of_byte[of c] by simp
  show ?thesis
  proof (cases "c = CHR '' ''")
    case True
    then show ?thesis by (simp add: escape_byte_def split: option.splits)
  next
    case False
    show ?thesis
    proof (cases "shouldEscape c")
      case True
      with False upperhex_ok[OF d(1,2)] upperhex_ok[OF d(3,4)] inv show ?thesis
        by (simp add: escape_byte_def split: option.splits)
    next
      case no: False
      with reserved_escaped have "c \<noteq> CHR ''%''" "c \<noteq> CHR ''+''" by auto
      with False no show ?thesis by (simp add: escape_byte_def split: option.splits)
    qed
  qed
qed

lemma QueryUnescape_QueryEscape: "QueryUnescape (QueryEscape s) = Some s"
  by (induction s) (simp_all add: QueryEscape_def QueryUnescape_escape_byte)


lemma Cut_at: "sep \<notin> set p \<Longrightarrow> Cut sep (p @ sep # rest) = (p, rest)"
  by (induction p) (auto simp: Cut_def)

lemma Cut_none: "sep \<notin> set p \<Longrightarrow> Cut sep p = (p, [])"
  by (induction p) (auto simp: Cut_def)

definition pair_text :: "string \<times> string \<Rightarrow> string" where
  "pair_text p = QueryEscape (fst p) @ ''='' @ QueryEscape (snd p)"

lemma pair_text_clean:
  "CHR ''&'' \<notin> set (pair_text p)" "CHR '';'' \<notin> set (pair_text p)" "pair_text p \<noteq> []"
  by (simp_all add: pair_text_def QueryEscape_clean)

lemma Cut_pair_text: "Cut (CHR ''='') (pair_text p) = (QueryEscape (fst p), QueryEscape (snd p))"
  by (simp add: pair_text_def Cut_at QueryEscape_clean)

lemma parseQuery_Nil: "parseQuery m [] = m"
  by (simp add: parseQuery.simps[of m "[]"])

lemma parseQuery_pair_more:
  "parseQuery m (pair_text p @ CHR ''&'' # rest) = parseQuery (Values_Add m (fst p) (snd p)) rest"
  by (simp add: parseQuery.simps[of m "pair_text p @ CHR ''&'' # rest"]
      Cut_at pair_text_clean Cut_pair_text QueryUnescape_QueryEscape Let_def)

lemma parseQuery_pair_last:
  "parseQuery m (pair_text p) = Values_Add m (fst p) (snd p)"
  by (simp add: parseQuery.simps[of m "pair_text p"]
      Cut_none pair_text_clean Cut_pair_text QueryUnescape_QueryEscape Let_def parseQuery_Nil)

definition more_pairs :: "(string \<times> string) list \<Rightarrow> string" where
  "more_pairs ps = concat (map (\<lambda>p. CHR ''&'' # pair_text p) ps)"

lemma parseQuery_pairs:
  "parseQuery m (pair_text p @ more_pairs ps) = fold (\<lambda>p m. Values_Add m (fst p) (snd p)) (p # ps) m"
proof (induction ps arbitrary: m p)
  case Nil
  then show ?case by (simp add: more_pairs_def parseQuery_pair_last)
next
  case (Cons q ps)
  have "parseQuery m (pair_text p @ more_pairs (q # ps))
      = parseQuery (Values_Add m (fst p) (snd p)) (pair_text q @ more_pairs ps)"
    by (simp add: more_pairs_def parseQuery_pair_more)
  with Cons.IH show ?case by simp
qed

lemma write_pairs_nonempty:
  "buf \<noteq> [] \<Longrightarrow> fold (\<lambda>p. write_pair (fst p) (snd p)) ps buf = buf @ more_pairs ps"
proof (induction ps arbitrary: buf)
  case Nil
  then show ?case by (simp add: more_pairs_def)
next
  case (Cons p ps)
  have "write_pair (fst p) (snd p) buf = buf @ CHR ''&'' # pair_text p"
    using Cons.prems by (simp add: write_pair_def pair_text_def)
  moreover have "buf @ CHR ''&'' # pair_text p \<noteq> []" by simp
  ultimately show ?case
    using Cons.IH[of "buf @ CHR ''&'' # pair_text p"] by (simp add: more_pairs_def)
qed

lemma write_pairs:
  "fold (\<lambda>p. write_pair (fst p) (snd p)) ps [] = (case ps of [] \<Rightarrow> [] | p # qs \<Rightarrow> pair_text p @ more_pairs qs)"
proof (cases ps)
  case Nil
  then show ?thesis by simp
next
  case (Cons p qs)
  have "write_pair (fst p) (snd p) [] = pair_text p"
    by (simp add: write_pair_def pair_text_def)
  with Cons show ?thesis
    by (simp add: write_pairs_nonempty pair_text_clean)
qed

lemma ParseQuery_write_pairs:
  "ParseQuery (fold (\<lambda>p. write_pair (fst p) (snd p)) ps []) = fold (\<lambda>p m. Values_Add m (fst p) (snd p)) ps []"
proof (cases ps)
  case Nil
  then show ?thesis by (simp add: ParseQuery_def parseQuery_Nil)
next
  case (Cons p qs)
  have "fold (\<lambda>p. write_pair (fst p) (snd p)) ps [] = pair_text p @ more_pairs qs"
    unfolding Cons by (simp only: write_pairs list.case)
  then show ?thesis
    unfolding ParseQuery_def by (simp only: parseQuery_pairs Cons)
qed

definition pairs_of :: "(string \<Rightarrow> string list) \<Rightarrow> string list \<Rightarrow> (string \<times> string) list" where
  "pairs_of f keys = concat (map (\<lambda>k. map (Pair k) (f k)) keys)"

lemma fold_keys_pairs:
  "fold (\<lambda>key buf. fold (write_pair key) (f key) buf) keys buf
     = fold (\<lambda>p. write_pair (fst p) (snd p)) (pairs_of f keys) buf"
proof (induction keys arbitrary: buf)
  case Nil
  then show ?case by (simp add: pairs_of_def)
next
  case (Cons k keys)
  have "fold (write_pair k) xs b = fold (\<lambda>p. write_pair (fst p) (snd p)) (map (Pair k) xs) b" for xs b
    by (induction xs arbitrary: b) simp_all
  with Cons.IH show ?case by (simp add: pairs_of_def)
qed

lemma Values_Encode_pairs:
  "Values_Encode v
     = fold (\<lambda>p. write_pair (fst p) (snd p)) (pairs_of (Values_index v) (sort (remdups (map fst v)))) []"
  by (simp add: Values_Encode_def fold_keys_pairs)

lemma Values_index_Add:
  "Values_index (Values_Add m k x) key = (if key = k then Values_index m k @ [x] else Values_index m key)"
  by (simp add: Values_index_def Values_Add_def update_conv')

lemma Values_index_Set:
  "Values_index (Values_Set m k x) key = (if key = k then [x] else Values_index m key)"
  by (simp add: Values_index_def Values_Set_def update_conv')

lemma Values_index_fold_Add:
  "Values_index (fold (\<lambda>p m. Values_Add m (fst p) (snd p)) ps m) key
     = Values_index m key @ map snd (filter (\<lambda>p. fst p = key) ps)"
  by (induction ps arbitrary: m) (auto simp: Values_index_Add)

lemma pairs_of_key:
  "distinct keys \<Longrightarrow>
   map snd (filter (\<lambda>p. fst p = key) (pairs_of f keys)) = (if key \<in> set keys then f key else [])"
proof (induction keys)
  case Nil
  then show ?case by (simp add: pairs_of_def)
next
  case (Cons k keys)
  have one: "map snd (filter (\<lambda>p. fst p = key) (map (Pair k) xs)) = (if k = key then xs else [])" for xs
    by (induction xs) auto
  from Cons show ?case
    by (auto simp: pairs_of_def one)
qed

lemma Values_index_absent: "key \<notin> fst ` set v \<Longrightarrow> Values_index v key = []"
  by (auto simp: Values_index_def split: option.splits dest!: map_of_SomeD intro: rev_image_eqI)

lemma Values_index_Nil: "Values_index [] key = []"
  by (simp add: Values_index_def)

lemma Query_Encode:
  "Values_index (ParseQuery (Values_Encode v)) key = Values_index v key"
proof -
  let ?keys = "sort (remdups (map fst v))"
  have "Values_index (ParseQuery (Values_Encode v)) key
      = map snd (filter (\<lambda>p. fst p = key) (pairs_of (Values_index v) ?keys))"
    by (simp add: Values_Encode_pairs ParseQuery_write_pairs Values_index_fold_Add Values_index_Nil)
  also have "\<dots> = (if key \<in> set ?keys then Values_index v key else [])"
    by (rule pairs_of_key) simp
  also have "\<dots> = Values_index v key"
    by (simp add: Values_index_absent)
  finally show ?thesis .
qed


text \<open>The pairs of a query string, as text: \<open>strings.Split(query, "&")\<close>.\<close>

fun split_on :: "char \<Rightarrow> string \<Rightarrow> string list" where
  "split_on sep [] = [[]]"
| "split_on sep (c # cs) =
     (if c = sep then [] # split_on sep cs
      else (case split_on sep cs of [] \<Rightarrow> [[c]] | p # ps \<Rightarrow> (c # p) # ps))"

lemma split_on_at: "sep \<notin> set p \<Longrightarrow> split_on sep (p @ sep # rest) = p # split_on sep rest"
  by (induction p) auto

lemma split_on_none: "sep \<notin> set p \<Longrightarrow> split_on sep p = [p]"
  by (induction p) auto

lemma split_on_pairs:
  "split_on (CHR ''&'') (pair_text p @ more_pairs ps) = map pair_text (p # ps)"
proof (induction ps arbitrary: p)
  case Nil
  then show ?case by (simp add: more_pairs_def split_on_none pair_text_clean)
next
  case (Cons q ps)
  have "pair_text p @ more_pairs (q # ps) = pair_text p @ CHR ''&'' # (pair_text q @ more_pairs ps)"
    by (simp add: more_pairs_def)
  with Cons.IH[of q] show ?case
    by (simp add: split_on_at pair_text_clean)
qed

lemma pairs_of_member: "(k, x) \<in> set (pairs_of f keys) \<longleftrightarrow> k \<in> set keys \<and> x \<in> set (f k)"
  by (auto simp: pairs_of_def)

lemma Values_Encode_has_pair:
  assumes "x \<in> set (Values_index v key)"
  shows "pair_text (key, x) \<in> set (split_on (CHR ''&'') (Values_Encode v))"
proof -
  let ?ps = "pairs_of (Values_index v) (sort (remdups (map fst v)))"
  have "key \<in> fst ` set v"
  proof (rule ccontr)
    assume "key \<notin> fst ` set v"
    then have "Values_index v key = []" by (rule Values_index_absent)
    with assms show False by simp
  qed
  with assms have mem: "(key, x) \<in> set ?ps"
    by (simp add: pairs_of_member)
  then obtain p qs where ps: "?ps = p # qs"
    by (cases ?ps) auto
  have "Values_Encode v = pair_text p @ more_pairs qs"
    unfolding Values_Encode_pairs ps by (simp only: write_pairs list.case)
  then have "split_on (CHR ''&'') (Values_Encode v) = map pair_text ?ps"
    by (simp only: split_on_pairs ps)
  with mem show ?thesis by force
qed

lemma mode_auto_text: "pair_text (''mode'', ''auto'') = ''mode=auto''"
  unfolding pair_text_def fst_conv snd_conv by code_simp

lemma features_text: "pair_text (''features'', f) = ''features='' @ QueryEscape f"
proof -
  have "QueryEscape ''features'' = ''features''" by code_simp
  then show ?thesis by (simp add: pair_text_def)
qed


section \<open>The query of a request\<close>

definition ok_reply :: Response where
  "ok_reply = \<lparr>StatusCode = 200, Body = ReadOK ''{}''\<rparr>"

lemma Query_set_RawQuery:
  "Values_index (URL_Query (URL (set_RawQuery req q))) key = Values_index q key"
  by (simp add: set_RawQuery_def URL_Query_def Query_Encode)

lemma Cut_fst_subset: "set (fst (Cut sep s)) \<subseteq> set s"
  by (auto simp: Cut_def dest: set_takeWhileD)

lemma url_Parse_no_query:
  assumes "url_Parse ok raw = Some u" and "CHR ''?'' \<notin> set raw"
  shows "RawQuery u = []"
proof -
  from assms(2) Cut_fst_subset[of "CHR ''#''" raw] have "CHR ''?'' \<notin> set (fst (Cut (CHR ''#'') raw))"
    by blast
  then have "snd (Cut (CHR ''?'') (fst (Cut (CHR ''#'') raw))) = []"
    by (simp add: Cut_none)
  with assms(1) show ?thesis
    by (auto simp: url_Parse_def Let_def split: if_splits)
qed

lemma prepareRequest_no_query:
  assumes "prepareRequest ext s method endpoint body = Inr req"
    and "CHR ''?'' \<notin> set (baseURL (config s))" and "CHR ''?'' \<notin> set endpoint"
  shows "RawQuery (URL req) = []"
proof -
  from assms(1) obtain u where u: "url_Parse (url_ok ext) (baseURL (config s) @ endpoint) = Some u"
    and req: "URL req = u"
    by (auto simp: prepareRequest_def http_NewRequest_def setDefaultHeaders_def Let_def
        split: sum.splits option.splits)
  from url_Parse_no_query[OF u] assms(2,3) req show ?thesis by simp
qed

lemma prepareRequest_returns:
  "url_ok ext (baseURL (config s) @ endpoint) \<Longrightarrow> \<exists>req. prepareRequest ext s method endpoint body = Inr req"
  by (simp add: prepareRequest_def http_NewRequest_def url_Parse_def Let_def)

lemma Transcript_request_query:
  assumes "Transcript_request ext s params = Inr req" and "Mode params = []"
  shows "\<exists>q. RawQuery (URL req) = Values_Encode q \<and> Values_index q ''mode'' = [''auto'']"
proof -
  from assms obtain req0 q where "req = set_RawQuery req0 (Values_Set q ''mode'' Auto)"
    by (auto simp: Transcript_request_def Let_def split: sum.splits)
  then have "RawQuery (URL req) = Values_Encode (Values_Set q ''mode'' Auto)"
    and "Values_index (Values_Set q ''mode'' Auto) ''mode'' = [''auto'']"
    by (simp_all add: set_RawQuery_def Values_index_Set Auto_def)
  then show ?thesis by blast
qed

text \<open>
  C4. The request of a transcript fetch whose \<open>Mode\<close> is empty has the parameter \<open>mode\<close>
  in its query, with the single value \<open>auto\<close>: \<open>mode=auto\<close> is one of the pairs of the
  query string, and reading the query gives \<open>mode\<close> that value and no other, so it is
  never missing and never empty, whatever the other parameters and the base URL are.
  The request is built whenever \<open>http.NewRequest\<close> accepts the URL.
\<close>

theorem Transcript_mode_default:
  assumes "Mode params = []"
  shows "(\<forall>req. Transcript_request ext s params = Inr req \<longrightarrow>
            Values_index (URL_Query (URL req)) ''mode'' = [''auto'']
          \<and> ''mode=auto'' \<in> set (split_on (CHR ''&'') (RawQuery (URL req))))
       \<and> (url_ok ext (baseURL (config s) @ ''/transcript'') \<longrightarrow>
            (\<exists>req. Transcript_request ext s params = Inr req))"
proof (intro conjI allI impI)
  fix req
  assume req: "Transcript_request ext s params = Inr req"
  from Transcript_request_query[OF req assms] obtain q
    where q: "RawQuery (URL req) = Values_Encode q" "Values_index q ''mode'' = [''auto'']"
    by blast
  from q show "Values_index (URL_Query (URL req)) ''mode'' = [''auto'']"
    by (simp add: URL_Query_def Query_Encode)
  from q Values_Encode_has_pair[of "''auto''" q "''mode''"]
  show "''mode=auto'' \<in> set (split_on (CHR ''&'') (RawQuery (URL req)))"
    by (simp add: mode_auto_text)
next
  assume "url_ok ext (baseURL (config s) @ ''/transcript'')"
  then obtain req0 where "prepareRequest ext s ''GET'' ''/transcript'' None = Inr req0"
    using prepareRequest_returns by blast
  then show "\<exists>req. Transcript_request ext s params = Inr req"
    by (simp add: Transcript_request_def Let_def)
qed

lemma video_request:
  "map_sum id (\<lambda>req. RawQuery (URL req)) (Transcript_request (fixed_reply ok_reply) plain_client video_params)
     = Inr ''mode=auto&url=https%3A%2F%2Fwww.youtube.com%2Fwatch%3Fv%3DdQw4w9WgXcQ''"
  by code_simp

theorem Transcript_mode_default_witness:
  "\<exists>req. Transcript_request (fixed_reply ok_reply) plain_client video_params = Inr req
      \<and> RawQuery (URL req) = ''mode=auto&url=https%3A%2F%2Fwww.youtube.com%2Fwatch%3Fv%3DdQw4w9WgXcQ''
      \<and> Values_index (URL_Query (URL req)) ''mode'' = [''auto'']"
proof -
  have m: "Mode video_params = []"
    by (simp add: video_params_def)
  obtain req where req: "Transcript_request (fixed_reply ok_reply) plain_client video_params = Inr req"
    using Transcript_request_plain by blast
  with video_request have "RawQuery (URL req) = ''mode=auto&url=https%3A%2F%2Fwww.youtube.com%2Fwatch%3Fv%3DdQw4w9WgXcQ''"
    by simp
  with req Transcript_mode_default[OF m, of "fixed_reply ok_reply" plain_client] show ?thesis
    by blast
qed

lemma isDigit_unescaped: "isDigit c \<Longrightarrow> escape_byte c = [c]"
  by (auto simp: escape_byte_def shouldEscape_def isDigit_def)

lemma QueryEscape_digits: "list_all isDigit ds \<Longrightarrow> QueryEscape ds = ds"
  by (induction ds) (simp_all add: QueryEscape_def isDigit_unescaped)

lemma digit_isDigit: "n < 10 \<Longrightarrow> isDigit (digit n)"
proof -
  have "list_all (\<lambda>n. isDigit (digit n)) [0, 1, 2, 3, 4, 5, 6, 7, 8, 9]"
    by code_simp
  moreover assume "n < 10"
  then have "n \<in> set [0, 1, 2, 3, 4, 5, 6, 7, 8, 9]"
    by (simp only: list.set insert_iff empty_iff) arith
  ultimately show ?thesis
    unfolding list_all_iff by blast
qed

lemma digits_isDigit: "list_all isDigit (digits n)"
proof (induction n rule: digits.induct)
  case (1 n)
  show ?case
  proof (cases "n < 10")
    case True
    then show ?thesis by (simp add: digits.simps[of n] digit_isDigit)
  next
    case False
    with 1 show ?thesis by (simp add: digits.simps[of n] digit_isDigit)
  qed
qed

lemma Sprintf_d_unescaped: "0 \<le> n \<Longrightarrow> QueryEscape (Sprintf_d n) = Sprintf_d n"
  by (simp add: Sprintf_d_def QueryEscape_digits digits_isDigit)

lemma Encode_single: "Values_Encode [(key, [x])] = QueryEscape key @ ''='' @ QueryEscape x"
  by (simp add: Values_Encode_def Values_index_def write_pair_def)

lemma skip_key: "QueryEscape ''skip'' = ''skip''" "Sprintf_d 10 = ''10''"
  by code_simp+

lemma job_with_query:
  "map_sum id (\<lambda>req. RawQuery (URL req)) (CrawlResult_request (fixed_reply ok_reply) plain_client ''j?skip=7'' 0)
     = Inr ''skip=7''"
  "map_sum id (\<lambda>req. Values_index (URL_Query (URL req)) ''skip'')
       (CrawlResult_request (fixed_reply ok_reply) plain_client ''j?skip=7'' 0)
     = Inr [''7'']"
  by code_simp+

text \<open>
  C7, as stated, fails for the case \<open>skip = 0\<close>: the job id is appended to the path as it
  is, so with the job id \<open>j?skip=7\<close> the URL that \<open>http.NewRequest\<close> parses (and accepts)
  already has the query \<open>skip=7\<close>, and with \<open>skip = 0\<close> the function sends it unchanged.
\<close>

theorem job_id_carries_skip:
  "CHR ''?'' \<notin> set (baseURL (config plain_client))
   \<and> map_sum id (\<lambda>req. RawQuery (URL req))
        (CrawlResult_request (fixed_reply ok_reply) plain_client ''j?skip=7'' 0) = Inr ''skip=7''
   \<and> map_sum id (\<lambda>req. Values_index (URL_Query (URL req)) ''skip'')
        (CrawlResult_request (fixed_reply ok_reply) plain_client ''j?skip=7'' 0) = Inr [''7'']"
proof -
  have "CHR ''?'' \<notin> set (baseURL (config plain_client))"
    by (simp add: plain_client_def BaseUrl_def)
  with job_with_query show ?thesis by blast
qed

text \<open>
  C7, amended. For a crawl poll whose base URL and job id contain no \<open>?\<close>: with \<open>skip\<close>
  equal to 0 the request has no query at all, and with a positive \<open>skip\<close> its query is
  \<open>skip=\<close> followed by the number, so \<open>skip=10\<close> for 10. For any base URL and job id, a
  positive \<open>skip\<close> gives the parameter \<open>skip\<close> that single value, and \<open>skip = 0\<close> leaves the
  query as the URL spells it. The request is built whenever \<open>http.NewRequest\<close> accepts
  the URL.
\<close>

theorem CrawlResult_skip:
  "(\<forall>req. CrawlResult_request ext s jobId skip = Inr req \<longrightarrow>
      (0 < skip \<longrightarrow> Values_index (URL_Query (URL req)) ''skip'' = [Sprintf_d skip])
    \<and> (skip = 0 \<longrightarrow> prepareRequest ext s ''GET'' (''/web/crawl/'' @ jobId) None = Inr req)
    \<and> (CHR ''?'' \<notin> set (baseURL (config s)) \<and> CHR ''?'' \<notin> set jobId \<longrightarrow>
          (skip = 0 \<longrightarrow> RawQuery (URL req) = [])
        \<and> (0 < skip \<longrightarrow> RawQuery (URL req) = ''skip='' @ Sprintf_d skip)
        \<and> (skip = 10 \<longrightarrow> RawQuery (URL req) = ''skip=10'')))
   \<and> (url_ok ext (baseURL (config s) @ ''/web/crawl/'' @ jobId) \<longrightarrow>
        (\<exists>req. CrawlResult_request ext s jobId skip = Inr req))"
proof (intro conjI allI impI)
  fix req
  assume req: "CrawlResult_request ext s jobId skip = Inr req"
  {
    assume "0 < skip"
    with req show "Values_index (URL_Query (URL req)) ''skip'' = [Sprintf_d skip]"
      by (auto simp: CrawlResult_request_def Let_def Query_set_RawQuery Values_index_Set
          split: sum.splits)
  }
  {
    assume "skip = 0"
    with req show "prepareRequest ext s ''GET'' (''/web/crawl/'' @ jobId) None = Inr req"
      by (auto simp: CrawlResult_request_def split: sum.splits)
  }
  assume "CHR ''?'' \<notin> set (baseURL (config s)) \<and> CHR ''?'' \<notin> set jobId"
  then have clean: "CHR ''?'' \<notin> set (baseURL (config s))" "CHR ''?'' \<notin> set (''/web/crawl/'' @ jobId)"
    by simp_all
  {
    assume "skip = 0"
    with req have "prepareRequest ext s ''GET'' (''/web/crawl/'' @ jobId) None = Inr req"
      by (auto simp: CrawlResult_request_def split: sum.splits)
    from prepareRequest_no_query[OF this clean] show "RawQuery (URL req) = []" .
  }
  have pos: "RawQuery (URL req) = ''skip='' @ Sprintf_d skip" if "0 < skip"
  proof -
    from req that obtain req0 where req0: "prepareRequest ext s ''GET'' (''/web/crawl/'' @ jobId) None = Inr req0"
      and eq: "req = set_RawQuery req0 (Values_Set (URL_Query (URL req0)) ''skip'' (Sprintf_d skip))"
      by (auto simp: CrawlResult_request_def Let_def split: sum.splits)
    from prepareRequest_no_query[OF req0 clean] have "URL_Query (URL req0) = []"
      by (simp add: URL_Query_def ParseQuery_def parseQuery_Nil)
    with eq that show ?thesis
      by (simp add: set_RawQuery_def Values_Set_def Encode_single skip_key Sprintf_d_unescaped)
  qed
  {
    assume "0 < skip"
    then show "RawQuery (URL req) = ''skip='' @ Sprintf_d skip" by (rule pos)
  }
  {
    assume "skip = 10"
    with pos show "RawQuery (URL req) = ''skip=10''" by (simp add: skip_key)
  }
next
  assume "url_ok ext (baseURL (config s) @ ''/web/crawl/'' @ jobId)"
  then obtain req0 where "prepareRequest ext s ''GET'' (''/web/crawl/'' @ jobId) None = Inr req0"
    using prepareRequest_returns by blast
  then show "\<exists>req. CrawlResult_request ext s jobId skip = Inr req"
    by (simp add: CrawlResult_request_def Let_def)
qed

theorem CrawlResult_skip_witness:
  "(\<exists>req. CrawlResult_request (fixed_reply ok_reply) plain_client ''job-123'' 0 = Inr req
       \<and> RawQuery (URL req) = [])
   \<and> (\<exists>req. CrawlResult_request (fixed_reply ok_reply) plain_client ''job-123'' 10 = Inr req
       \<and> RawQuery (URL req) = ''skip=10'')"
proof -
  have ok: "url_ok (fixed_reply ok_reply) u" for u
    by (simp add: fixed_reply_def)
  have clean: "CHR ''?'' \<notin> set (baseURL (config plain_client)) \<and> CHR ''?'' \<notin> set ''job-123''"
    by (simp add: plain_client_def BaseUrl_def)
  from CrawlResult_skip[of "fixed_reply ok_reply" plain_client "''job-123''" 0] ok clean
  have 1: "\<exists>req. CrawlResult_request (fixed_reply ok_reply) plain_client ''job-123'' 0 = Inr req
       \<and> RawQuery (URL req) = []"
    by auto
  from CrawlResult_skip[of "fixed_reply ok_reply" plain_client "''job-123''" 10] ok clean
  have 2: "\<exists>req. CrawlResult_request (fixed_reply ok_reply) plain_client ''job-123'' 10 = Inr req
       \<and> RawQuery (URL req) = ''skip=10''"
    by auto
  from 1 2 show ?thesis by simp
qed

lemma Values_index_features:
  "Values_index (fold (\<lambda>f q. Values_Add q ''features'' f) fs q) key
     = (if key = ''features'' then Values_index q key @ fs else Values_index q key)"
  by (induction fs arbitrary: q) (simp_all add: Values_index_Add)

lemma YouTubeSearch_request_features:
  assumes "YouTubeSearch_request ext s params = Inr req"
    and "prepareRequest ext s ''GET'' ''/youtube/search'' None = Inr req0"
  shows "Values_index (URL_Query (URL req)) ''features''
           = Values_index (URL_Query (URL req0)) ''features'' @ Features params"
proof -
  have distr: "Values_index (if b then q1 else q2) key = (if b then Values_index q1 key else Values_index q2 key)"
    for b q1 q2 key
    by simp
  from assms show ?thesis
    by (clarsimp simp: YouTubeSearch_request_def Let_def Query_set_RawQuery distr Values_index_Set
        Values_index_features)
qed

definition hd_live :: YouTubeSearchParams where
  "hd_live =
     \<lparr>Query = ''cats'', UploadDate = [], YouTubeSearchParams.Type = [], YouTubeSearchParams.Duration = [],
      SortBy = [], Features = [''hd'', ''live''], YouTubeSearchParams.Limit = 0, NextPageToken = []\<rparr>"

definition query_base_client :: Supadata where
  "query_base_client =
     \<lparr>config = \<lparr>apiKey = ''key'', baseURL = ''https://api.supadata.ai/v1?features=4k&at='', client = Some 0\<rparr>\<rparr>"

lemma hd_live_requests:
  "map_sum id (\<lambda>req. RawQuery (URL req)) (YouTubeSearch_request (fixed_reply ok_reply) plain_client hd_live)
     = Inr ''features=hd&features=live&query=cats''"
  "map_sum id (\<lambda>req. Values_index (URL_Query (URL req)) ''features'')
       (YouTubeSearch_request (fixed_reply ok_reply) query_base_client hd_live)
     = Inr [''4k'', ''hd'', ''live'']"
  by code_simp+

text \<open>
  C8, as stated, fails: the flags are added to the query that the request's URL already
  has. With a base URL that ends in \<open>?features=4k&at=\<close> (a URL that \<open>http.NewRequest\<close>
  accepts) the query read back has three values under \<open>features\<close>, not the two flags
  that were passed.
\<close>

theorem base_url_carries_features:
  "Features hd_live = [''hd'', ''live'']
   \<and> map_sum id (\<lambda>req. Values_index (URL_Query (URL req)) ''features'')
        (YouTubeSearch_request (fixed_reply ok_reply) query_base_client hd_live)
      = Inr [''4k'', ''hd'', ''live'']"
proof -
  have "Features hd_live = [''hd'', ''live'']"
    by (simp add: hd_live_def)
  with hd_live_requests(2) show ?thesis by blast
qed

text \<open>
  C8, amended. For a client whose base URL contains no \<open>?\<close> (the default one has none),
  every list of feature flags passed to the YouTube search is added flag by flag under
  the one key \<open>features\<close>, and reading the encoded query back gives that same list in
  the same order. For any base URL, every flag has a pair \<open>features=flag\<close> of its own in
  the query string, and the values read back under \<open>features\<close> are those the URL
  already had, followed by the flags in their order. The request is built whenever
  \<open>http.NewRequest\<close> accepts the URL.
\<close>

theorem YouTubeSearch_features:
  "(\<forall>req. YouTubeSearch_request ext s params = Inr req \<longrightarrow>
      (\<forall>req0. prepareRequest ext s ''GET'' ''/youtube/search'' None = Inr req0 \<longrightarrow>
          Values_index (URL_Query (URL req)) ''features''
            = Values_index (URL_Query (URL req0)) ''features'' @ Features params)
    \<and> (\<forall>f\<in>set (Features params).
          ''features='' @ QueryEscape f \<in> set (split_on (CHR ''&'') (RawQuery (URL req))))
    \<and> (CHR ''?'' \<notin> set (baseURL (config s)) \<longrightarrow>
          Values_index (URL_Query (URL req)) ''features'' = Features params))
   \<and> (url_ok ext (baseURL (config s) @ ''/youtube/search'') \<longrightarrow>
        (\<exists>req. YouTubeSearch_request ext s params = Inr req))"
proof (intro conjI allI impI ballI)
  fix req req0
  assume "YouTubeSearch_request ext s params = Inr req"
    and "prepareRequest ext s ''GET'' ''/youtube/search'' None = Inr req0"
  then show "Values_index (URL_Query (URL req)) ''features''
            = Values_index (URL_Query (URL req0)) ''features'' @ Features params"
    by (rule YouTubeSearch_request_features)
next
  fix req f
  assume req: "YouTubeSearch_request ext s params = Inr req" and f: "f \<in> set (Features params)"
  from req obtain req0 q where req0: "prepareRequest ext s ''GET'' ''/youtube/search'' None = Inr req0"
    and q: "req = set_RawQuery req0 q"
    by (auto simp: YouTubeSearch_request_def Let_def split: sum.splits)
  from YouTubeSearch_request_features[OF req req0] f q
  have "f \<in> set (Values_index q ''features'')"
    by (simp add: Query_set_RawQuery)
  from Values_Encode_has_pair[OF this] q
  show "''features='' @ QueryEscape f \<in> set (split_on (CHR ''&'') (RawQuery (URL req)))"
    by (simp add: set_RawQuery_def features_text)
next
  fix req
  assume req: "YouTubeSearch_request ext s params = Inr req"
    and clean: "CHR ''?'' \<notin> set (baseURL (config s))"
  from req obtain req0 where req0: "prepareRequest ext s ''GET'' ''/youtube/search'' None = Inr req0"
    by (auto simp: YouTubeSearch_request_def split: sum.splits)
  from prepareRequest_no_query[OF req0 clean] have "URL_Query (URL req0) = []"
    by (simp add: URL_Query_def ParseQuery_def parseQuery_Nil)
  with YouTubeSearch_request_features[OF req req0]
  show "Values_index (URL_Query (URL req)) ''features'' = Features params"
    by (simp add: Values_index_Nil)
next
  assume "url_ok ext (baseURL (config s) @ ''/youtube/search'')"
  then obtain req0 where "prepareRequest ext s ''GET'' ''/youtube/search'' None = Inr req0"
    using prepareRequest_returns by blast
  then show "\<exists>req. YouTubeSearch_request ext s params = Inr req"
    by (simp add: YouTubeSearch_request_def Let_def)
qed

theorem YouTubeSearch_features_witness:
  "\<exists>req. YouTubeSearch_request (fixed_reply ok_reply) plain_client hd_live = Inr req
      \<and> RawQuery (URL req) = ''features=hd&features=live&query=cats''
      \<and> Values_index (URL_Query (URL req)) ''features'' = [''hd'', ''live'']"
proof -
  have ok: "url_ok (fixed_reply ok_reply) u" for u
    by (simp add: fixed_reply_def)
  have clean: "CHR ''?'' \<notin> set (baseURL (config plain_client))"
    by (simp add: plain_client_def BaseUrl_def)
  have fs: "Features hd_live = [''hd'', ''live'']"
    by (simp add: hd_live_def)
  from YouTubeSearch_features[of "fixed_reply ok_reply" plain_client hd_live] ok clean fs
  obtain req where req: "YouTubeSearch_request (fixed_reply ok_reply) plain_client hd_live = Inr req"
    and v: "Values_index (URL_Query (URL req)) ''features'' = [''hd'', ''live'']"
    by auto
  from req hd_live_requests(1) have "RawQuery (URL req) = ''features=hd&features=live&query=cats''"
    by simp
  with req v show ?thesis by blast
qed

end
